theory Spec2Isabelle
  imports Main "HOL-Library.AList" "HOL-Library.Char_ord" "HOL-Library.List_Lexorder"
begin

section \<open>Python values shared by both modules\<close>

text \<open>
  Exceptions of the Python source are values of the type \<open>error\<close>; a function that
  can raise returns \<open>error + 'a\<close> with \<open>Inl\<close> for the exception.  Leading underscores of
  the source's names are dropped (\<open>_get_dimensions\<close> is \<open>get_dimensions\<close>).
\<close>

datatype error =
    KeyError | IndexError | ValueError | TypeError | AttributeError
  | FileNotFoundError | FileExistsError | RuntimeError | ValidationError
  | ContainsGroupError | ContainsArrayError | IOError

text \<open>\<open>xs[i]\<close> for a list and a non-negative index: IndexError out of range.\<close>

definition getitem_list :: "'a list \<Rightarrow> nat \<Rightarrow> error + 'a" where
  "getitem_list xs i = (if i < length xs then Inr (xs ! i) else Inl IndexError)"

text \<open>\<open>d[k]\<close> for a dict kept as an association list: KeyError when the key is absent.\<close>

definition getitem_dict :: "('k \<times> 'v) list \<Rightarrow> 'k \<Rightarrow> error + 'v" where
  "getitem_dict d k = (case map_of d k of None \<Rightarrow> Inl KeyError | Some v \<Rightarrow> Inr v)"

text \<open>\<open>a in b\<close> for two strings: \<open>a\<close> occurs in \<open>b\<close> as a contiguous substring.\<close>

fun is_prefix :: "string \<Rightarrow> string \<Rightarrow> bool" where
  "is_prefix [] ys = True"
| "is_prefix (x # xs) [] = False"
| "is_prefix (x # xs) (y # ys) = (x = y \<and> is_prefix xs ys)"

fun str_in :: "string \<Rightarrow> string \<Rightarrow> bool" where
  "str_in a [] = (a = [])"
| "str_in a (c # cs) = (is_prefix a (c # cs) \<or> str_in a cs)"


section \<open>multipagetiff\_v2.py: the coordinate index of MicromanagerOmeTiffReader\<close>

text \<open>
  What \<open>TiffFile(file)\<close> gives the reader for one container file: the four columns of
  \<open>micromanager_metadata['IndexMap']\<close> and, for every page, its tags as
  (name, value) pairs.  The file path itself is what \<open>self.files\<close> holds.
\<close>

record index_map =
  im_Position :: "int list"
  im_Frame :: "int list"
  im_Channel :: "int list"
  im_Slice :: "int list"

record tiff_file =
  tf_path :: string
  tf_IndexMap :: index_map
  tf_pages :: "(string \<times> int list) list list"

type_synonym coord = "int \<times> int \<times> int \<times> int"

text \<open>The value stored in \<open>coord_map\<close>: (file, page, byte offset); the offset is
  \<open>None\<close> when \<open>_get_byte_offset\<close> falls off its loop without a return.\<close>

type_synonym entry = "string \<times> nat \<times> int option"

record reader =
  coord_map :: "(coord \<times> entry) list"
  positions :: int
  frames :: int
  channels :: int
  slices :: int
  height :: nat
  width :: nat

text \<open>\<open>_get_byte_offset\<close>: the first tag whose name contains \<open>StripOffset\<close> decides.\<close>

fun first_strip_offset :: "(string \<times> int list) list \<Rightarrow> error + int option" where
  "first_strip_offset [] = Inr None"
| "first_strip_offset ((name, val) # tags) =
     (if str_in ''StripOffset'' name
      then (case getitem_list val 0 of Inl e \<Rightarrow> Inl e | Inr v \<Rightarrow> Inr (Some v))
      else first_strip_offset tags)"

definition get_byte_offset :: "tiff_file \<Rightarrow> nat \<Rightarrow> error + int option" where
  "get_byte_offset tiff_file page =
     (case getitem_list (tf_pages tiff_file) page of
        Inl e \<Rightarrow> Inl e
      | Inr tags \<Rightarrow> first_strip_offset tags)"

text \<open>The body of the inner loop of \<open>_gather_index_maps\<close> for one page.\<close>

definition gather_page :: "tiff_file \<Rightarrow> nat \<Rightarrow> reader \<Rightarrow> error + reader" where
  "gather_page tf page r =
     (case getitem_list (im_Position (tf_IndexMap tf)) page of Inl e \<Rightarrow> Inl e | Inr c0 \<Rightarrow>
     (case getitem_list (im_Frame (tf_IndexMap tf)) page of Inl e \<Rightarrow> Inl e | Inr c1 \<Rightarrow>
     (case getitem_list (im_Channel (tf_IndexMap tf)) page of Inl e \<Rightarrow> Inl e | Inr c2 \<Rightarrow>
     (case getitem_list (im_Slice (tf_IndexMap tf)) page of Inl e \<Rightarrow> Inl e | Inr c3 \<Rightarrow>
     (case get_byte_offset tf page of Inl e \<Rightarrow> Inl e | Inr offset \<Rightarrow>
      Inr (r\<lparr> coord_map := AList.update (c0, c1, c2, c3) (tf_path tf, page, offset) (coord_map r),
              positions := (if c0 > positions r then c0 else positions r),
              frames := (if c1 > frames r then c1 else frames r),
              channels := (if c2 > channels r then c2 else channels r),
              slices := (if c3 > slices r then c2 else slices r) \<rparr>))))))"

fun gather_pages :: "tiff_file \<Rightarrow> nat list \<Rightarrow> reader \<Rightarrow> error + reader" where
  "gather_pages tf [] r = Inr r"
| "gather_pages tf (page # pages) r =
     (case gather_page tf page r of Inl e \<Rightarrow> Inl e | Inr r' \<Rightarrow> gather_pages tf pages r')"

text \<open>\<open>_gather_index_maps\<close>: every file of \<open>self.files\<close>, every page
  \<open>range(len(meta['Channel']))\<close>.\<close>

fun gather_index_maps :: "tiff_file list \<Rightarrow> reader \<Rightarrow> error + reader" where
  "gather_index_maps [] r = Inr r"
| "gather_index_maps (tf # files) r =
     (case gather_pages tf [0 ..< length (im_Channel (tf_IndexMap tf))] r of
        Inl e \<Rightarrow> Inl e
      | Inr r' \<Rightarrow> gather_index_maps files r')"

text \<open>\<open>_get_dimensions\<close>: one pass over \<open>coord_map.keys()\<close>, starting from 0, 0, 0.\<close>

fun dimensions_loop :: "int \<Rightarrow> coord list \<Rightarrow> int \<times> int \<times> int \<Rightarrow> int \<times> int \<times> int" where
  "dimensions_loop position [] (t, c, z) = (t, c, z)"
| "dimensions_loop position ((p0, p1, p2, p3) # tups) (t, c, z) =
     (if position \<noteq> p0 then dimensions_loop position tups (t, c, z)
      else dimensions_loop position tups
             (if p1 > t then p1 else t, if p2 > c then p2 else c, if p3 > z then p3 else z))"

definition get_dimensions :: "reader \<Rightarrow> int \<Rightarrow> int \<times> int \<times> int" where
  "get_dimensions r position = dimensions_loop position (map fst (coord_map r)) (0, 0, 0)"

text \<open>\<open>_get_image\<close>: the dictionary lookup, then \<open>np.memmap\<close> on the entry's file and
  offset.  \<open>np.memmap\<close> belongs to NumPy and is a parameter here.\<close>

definition get_image ::
  "(string \<Rightarrow> int option \<Rightarrow> nat \<times> nat \<Rightarrow> error + 'plane) \<Rightarrow> reader \<Rightarrow> coord \<Rightarrow> error + 'plane" where
  "get_image memmap r coord_key =
     (case getitem_dict (coord_map r) coord_key of
        Inl e \<Rightarrow> Inl e
      | Inr (file, page, offset) \<Rightarrow> memmap file offset (height r, width r))"

text \<open>\<open>range(n)\<close> for a Python int: empty when \<open>n\<close> is not positive.\<close>

definition py_range :: "int \<Rightarrow> int list" where
  "py_range n = map int [0 ..< nat n]"

text \<open>\<open>_create_position_array\<close>: the shape handed to \<open>zarr.empty\<close> and the planes
  written, in the order of the three nested loops.  A negative extent makes
  \<open>zarr.empty\<close> fail; the source never produces one, since the extents start from 0.\<close>

fun fill_planes ::
  "(string \<Rightarrow> int option \<Rightarrow> nat \<times> nat \<Rightarrow> error + 'plane) \<Rightarrow> reader \<Rightarrow> coord list
     \<Rightarrow> error + (coord \<times> 'plane) list" where
  "fill_planes memmap r [] = Inr []"
| "fill_planes memmap r (k # ks) =
     (case get_image memmap r k of
        Inl e \<Rightarrow> Inl e
      | Inr img \<Rightarrow> (case fill_planes memmap r ks of Inl e \<Rightarrow> Inl e | Inr rest \<Rightarrow> Inr ((k, img) # rest)))"

definition create_position_array ::
  "(string \<Rightarrow> int option \<Rightarrow> nat \<times> nat \<Rightarrow> error + 'plane) \<Rightarrow> reader \<Rightarrow> int
     \<Rightarrow> error + (int list \<times> (coord \<times> 'plane) list)" where
  "create_position_array memmap r pos =
     (case get_dimensions r pos of (timepoints, channels', slices') \<Rightarrow>
        (case fill_planes memmap r
                (concat (map (\<lambda>t. concat (map (\<lambda>c. map (\<lambda>z. (pos, t, c, z)) (py_range slices'))
                                                  (py_range channels')))
                             (py_range timepoints))) of
           Inl e \<Rightarrow> Inl e
         | Inr planes \<Rightarrow>
             Inr ([timepoints, channels', slices', int (height r), int (width r)], planes)))"

text \<open>The coordinate that \<open>_gather_index_maps\<close> reads for a page of a file.\<close>

definition page_coord :: "tiff_file \<Rightarrow> nat \<Rightarrow> coord" where
  "page_coord tf page =
     (let meta = tf_IndexMap tf in
      (im_Position meta ! page, im_Frame meta ! page, im_Channel meta ! page, im_Slice meta ! page))"

text \<open>A dataset of two files: position 0 with slices 0, 1, 2 and position 1 with slices
  0, 1, one timepoint and one channel; the summary metadata announced one frame, one
  channel and one slice.\<close>

definition tags_at :: "int \<Rightarrow> (string \<times> int list) list" where
  "tags_at off = [(''ImageWidth'', [4]), (''StripOffsets'', [off]), (''StripByteCounts'', [32])]"

definition file_pos0 :: tiff_file where
  "file_pos0 = \<lparr> tf_path = ''pos0.ome.tif'',
       tf_IndexMap = \<lparr> im_Position = [0, 0, 0], im_Frame = [0, 0, 0],
                       im_Channel = [0, 0, 0], im_Slice = [0, 1, 2] \<rparr>,
       tf_pages = [tags_at 100, tags_at 200, tags_at 300] \<rparr>"

definition file_pos1 :: tiff_file where
  "file_pos1 = \<lparr> tf_path = ''pos1.ome.tif'',
       tf_IndexMap = \<lparr> im_Position = [1, 1], im_Frame = [0, 0],
                       im_Channel = [0, 0], im_Slice = [0, 1] \<rparr>,
       tf_pages = [tags_at 100, tags_at 200] \<rparr>"

definition reader0 :: reader where
  "reader0 = \<lparr> coord_map = [], positions = 0, frames = 1, channels = 1, slices = 1,
               height = 4, width = 4 \<rparr>"

text \<open>The reader after \<open>_gather_index_maps\<close> on these two files.\<close>

definition example_index :: reader where
  "example_index =
     \<lparr> coord_map = [((0, 0, 0, 0), (''pos0.ome.tif'', 0, Some 100)),
                    ((0, 0, 0, 1), (''pos0.ome.tif'', 1, Some 200)),
                    ((0, 0, 0, 2), (''pos0.ome.tif'', 2, Some 300)),
                    ((1, 0, 0, 0), (''pos1.ome.tif'', 0, Some 100)),
                    ((1, 0, 0, 1), (''pos1.ome.tif'', 1, Some 200))],
       positions = 1, frames = 1, channels = 1, slices = 0, height = 4, width = 4 \<rparr>"

text \<open>A \<open>memmap\<close> for the examples: the plane is named by its file and offset.\<close>

definition example_memmap :: "string \<Rightarrow> int option \<Rightarrow> nat \<times> nat \<Rightarrow> error + (string \<times> int)" where
  "example_memmap file offset hw =
     (case offset of None \<Rightarrow> Inl TypeError | Some off \<Rightarrow> Inr (file, off))"

text \<open>An entry is recorded for a coordinate when some page of some file has that
  coordinate and the entry is that file, that page and the byte offset of that page.\<close>

definition recorded :: "tiff_file list \<Rightarrow> coord \<Rightarrow> entry \<Rightarrow> bool" where
  "recorded files c e \<longleftrightarrow>
     (\<exists>tf \<in> set files. \<exists>page < length (im_Channel (tf_IndexMap tf)). \<exists>off.
        page_coord tf page = c \<and> e = (tf_path tf, page, off) \<and> get_byte_offset tf page = Inr off)"


section \<open>ngff.py: the node hierarchy\<close>

subsection \<open>Attribute documents and the Zarr hierarchy\<close>

text \<open>A JSON-like value of a \<open>.zattrs\<close> document, with Python's truth value.\<close>

datatype raw =
    RNone | RBool bool | RInt int | RStr string | RList "raw list" | RDict "(string \<times> raw) list"

fun truthy :: "raw \<Rightarrow> bool" where
  "truthy RNone = False"
| "truthy (RBool b) = b"
| "truthy (RInt i) = (i \<noteq> 0)"
| "truthy (RStr s) = (s \<noteq> [])"
| "truthy (RList xs) = (xs \<noteq> [])"
| "truthy (RDict kvs) = (kvs \<noteq> [])"

type_synonym attrs = "(string \<times> raw) list"

text \<open>\<open>attrs.get(key)\<close>: \<open>None\<close> for a missing key.\<close>

definition attrs_get :: "attrs \<Rightarrow> string \<Rightarrow> raw" where
  "attrs_get a k = (case map_of a k of None \<Rightarrow> RNone | Some v \<Rightarrow> v)"

text \<open>\<open>attrs.update(d)\<close>: every pair of \<open>d\<close> is stored, in order.\<close>

definition attrs_update :: "attrs \<Rightarrow> attrs \<Rightarrow> attrs" where
  "attrs_update a d = foldl (\<lambda>acc kv. AList.update (fst kv) (snd kv) acc) a d"

text \<open>
  The contents of a Zarr group: an array has attributes and a shape, a group has
  attributes and named members.  A node object of the source holds a handle to its
  group; here it holds the contents of that group, and an operation that writes through
  a handle obtained from the node (a row group of a plate) writes the result back into
  the node's group.  Member names are single path segments.
\<close>

datatype znode =
    ZArray attrs "nat list"
  | ZGroup attrs "(string \<times> znode) list"

fun z_attrs :: "znode \<Rightarrow> attrs" where
  "z_attrs (ZArray a s) = a"
| "z_attrs (ZGroup a ms) = a"

fun z_members :: "znode \<Rightarrow> (string \<times> znode) list" where
  "z_members (ZArray a s) = []"
| "z_members (ZGroup a ms) = ms"

fun set_attrs :: "attrs \<Rightarrow> znode \<Rightarrow> znode" where
  "set_attrs a' (ZArray a s) = ZArray a' s"
| "set_attrs a' (ZGroup a ms) = ZGroup a' ms"

fun set_member :: "string \<Rightarrow> znode \<Rightarrow> znode \<Rightarrow> znode" where
  "set_member k v (ZArray a s) = ZArray a s"
| "set_member k v (ZGroup a ms) = ZGroup a (AList.update k v ms)"

fun is_group :: "znode \<Rightarrow> bool" where
  "is_group (ZArray a s) = False"
| "is_group (ZGroup a ms) = True"

text \<open>\<open>group.get(key)\<close> for a key of one or more path segments; \<open>None\<close> when a
  segment is missing.\<close>

fun z_get :: "znode \<Rightarrow> string list \<Rightarrow> znode option" where
  "z_get g [] = Some g"
| "z_get g (k # ks) =
     (case map_of (z_members g) k of None \<Rightarrow> None | Some child \<Rightarrow> z_get child ks)"

text \<open>
  The truth value of what \<open>group.get(key)\<close> returned, as \<open>if not znode\<close> computes
  it: Zarr groups and arrays define \<open>__len__\<close> and no \<open>__bool__\<close>, so a group is true
  when it has members, an array when its first dimension is not zero, and \<open>len\<close> of an
  array without dimensions raises TypeError.
\<close>

fun znode_truth :: "znode option \<Rightarrow> error + bool" where
  "znode_truth None = Inr False"
| "znode_truth (Some (ZGroup a ms)) = Inr (ms \<noteq> [])"
| "znode_truth (Some (ZArray a [])) = Inl TypeError"
| "znode_truth (Some (ZArray a (d # ds))) = Inr (d \<noteq> 0)"

text \<open>\<open>group.group_keys()\<close> and \<open>group.array_keys()\<close>, sorted as the node methods
  of the same names return them.\<close>

definition group_keys :: "znode \<Rightarrow> string list" where
  "group_keys g = sort (map fst (filter (\<lambda>kv. is_group (snd kv)) (z_members g)))"

definition array_keys :: "znode \<Rightarrow> string list" where
  "array_keys g = sort (map fst (filter (\<lambda>kv. \<not> is_group (snd kv)) (z_members g)))"

text \<open>\<open>next(group.groups())[1]\<close>: the first child group in key order, if any.\<close>

definition first_group :: "znode \<Rightarrow> znode option" where
  "first_group g =
     (case group_keys g of [] \<Rightarrow> None | k # ks \<Rightarrow> map_of (z_members g) k)"

text \<open>The error with which Zarr refuses to create a member under a name that is
  taken: by an array ContainsArrayError, by a group ContainsGroupError.\<close>

definition name_taken :: "znode \<Rightarrow> string \<Rightarrow> error" where
  "name_taken g name =
     (case map_of (z_members g) name of
        Some (ZArray a s) \<Rightarrow> ContainsArrayError
      | _ \<Rightarrow> ContainsGroupError)"

text \<open>\<open>group.create_group(name, overwrite)\<close>: a fresh empty group under \<open>name\<close>; an
  existing member of that name is replaced when \<open>overwrite\<close> is set and refused
  otherwise.  The result is the new group and the parent with it.\<close>

definition create_group :: "znode \<Rightarrow> string \<Rightarrow> bool \<Rightarrow> error + (znode \<times> znode)" where
  "create_group g name overwrite =
     (if \<not> is_group g then Inl AttributeError
      else if name \<in> fst ` set (z_members g) \<and> \<not> overwrite then Inl (name_taken g name)
      else Inr (ZGroup [] [], set_member name (ZGroup [] []) g))"


subsection \<open>Metadata documents\<close>

record axis =
  ax_name :: string
  ax_type :: string
  ax_unit :: "string option"

definition DEFAULT_AXES :: "axis list" where
  "DEFAULT_AXES =
     [\<lparr>ax_name = ''T'', ax_type = ''time'', ax_unit = Some ''second''\<rparr>,
      \<lparr>ax_name = ''C'', ax_type = ''channel'', ax_unit = None\<rparr>,
      \<lparr>ax_name = ''Z'', ax_type = ''space'', ax_unit = Some ''micrometer''\<rparr>,
      \<lparr>ax_name = ''Y'', ax_type = ''space'', ax_unit = Some ''micrometer''\<rparr>,
      \<lparr>ax_name = ''X'', ax_type = ''space'', ax_unit = Some ''micrometer''\<rparr>]"

text \<open>
  Modelled from the spec: the typed metadata documents of \<open>iohub.ngff_meta\<close>, which
  is not among the sources.  Each record keeps the fields that \<open>ngff.py\<close> reads or
  writes: an image document has its multiscales (axes and dataset paths) and the
  OMERO display block, of which a channel entry is kept as its label; a well document
  lists (acquisition, path) placements; a plate document lists row names, column names
  and (path, row index, column index) well placements.
\<close>

record multiscale =
  ms_axes :: "axis list"
  ms_datasets :: "string list"

record images_meta =
  im_multiscales :: "multiscale list"
  im_omero_channels :: "string list"

record well_group_meta =
  wg_images :: "(int \<times> string) list"

record plate_meta =
  pm_version :: string
  pm_name :: "string option"
  pm_acquisitions :: "int list"
  pm_rows :: "string list"
  pm_columns :: "string list"
  pm_wells :: "(string \<times> int \<times> int) list"

datatype meta = ImagesM images_meta | WellM well_group_meta | PlateM plate_meta

text \<open>
  Modelled from the spec: the metadata schema validator (``\<open>parse(raw_dict)\<close> gives a
  typed document or a ValidationError, \<open>document.to_dict(options)\<close> gives a raw
  dict'').  The three constructors from raw documents return \<open>None\<close> for a
  ValidationError; the three \<open>dict\<close> functions are
  \<open>metadata.dict(**TO_DICT_SETTINGS)\<close>.  A constructor called with values that
  \<open>ngff.py\<close> computed validates them too, and a predicate says whether it accepts:
  \<open>valid_axis_name\<close> for \<open>PlateAxisMeta(name=...)\<close>, \<open>valid_well_index\<close> for
  \<open>WellIndexMeta(path, row_index, column_index)\<close>, \<open>valid_image\<close> for
  \<open>ImageMeta(acquisition, path)\<close>, \<open>valid_dataset\<close> for \<open>DatasetMeta(path=...)\<close>,
  \<open>valid_multiscale\<close> for \<open>MultiScaleMeta(...)\<close>, and \<open>valid_plate\<close>,
  \<open>valid_well_group\<close>, \<open>valid_images\<close> for the three documents.  Every function over
  the hierarchy takes the schema as its first argument.
\<close>

record schema =
  ImagesMeta :: "raw \<Rightarrow> raw \<Rightarrow> images_meta option"
  WellGroupMeta :: "attrs \<Rightarrow> well_group_meta option"
  PlateMeta :: "attrs \<Rightarrow> plate_meta option"
  images_dict :: "images_meta \<Rightarrow> attrs"
  well_dict :: "well_group_meta \<Rightarrow> raw"
  plate_dict :: "plate_meta \<Rightarrow> raw"
  valid_axis_name :: "string \<Rightarrow> bool"
  valid_well_index :: "string \<times> int \<times> int \<Rightarrow> bool"
  valid_image :: "int \<times> string \<Rightarrow> bool"
  valid_dataset :: "string \<Rightarrow> bool"
  valid_multiscale :: "multiscale \<Rightarrow> bool"
  valid_plate :: "plate_meta \<Rightarrow> bool"
  valid_well_group :: "well_group_meta \<Rightarrow> bool"
  valid_images :: "images_meta \<Rightarrow> bool"

text \<open>\<open>Model(**doc)\<close>: a document that is not a mapping cannot be unpacked.\<close>

definition unpack_into :: "(attrs \<Rightarrow> 'm option) \<Rightarrow> raw \<Rightarrow> error + 'm" where
  "unpack_into model doc =
     (case doc of
        RDict kvs \<Rightarrow> (case model kvs of None \<Rightarrow> Inl ValidationError | Some m \<Rightarrow> Inr m)
      | _ \<Rightarrow> Inl TypeError)"

subsection \<open>Node objects and the Python lists they share\<close>

text \<open>
  A Python list of channel names is an object: two nodes can hold the same list, and
  \<open>append\<close> through one is seen through the other.  The heap holds the lists; a node
  holds the address of its list, which is one that \<open>alloc\<close> returned or that the
  caller passed in, so below the length of the heap; the theorems that read a list
  say so.
\<close>

type_synonym ref = nat
type_synonym heap = "string list list"

definition alloc :: "heap \<Rightarrow> string list \<Rightarrow> ref \<times> heap" where
  "alloc h xs = (length h, h @ [xs])"

definition list_append :: "heap \<Rightarrow> ref \<Rightarrow> string \<Rightarrow> heap" where
  "list_append h r x = h[r := h ! r @ [x]]"

datatype node_kind = PlateK | RowK | WellK | PositionK | ImageArrayK

text \<open>\<open>_MEMBER_TYPE\<close> of each class; \<open>ImageArray\<close> has none.\<close>

fun MEMBER_TYPE :: "node_kind \<Rightarrow> node_kind option" where
  "MEMBER_TYPE PlateK = Some RowK"
| "MEMBER_TYPE RowK = Some WellK"
| "MEMBER_TYPE WellK = Some PositionK"
| "MEMBER_TYPE PositionK = Some ImageArrayK"
| "MEMBER_TYPE ImageArrayK = None"

text \<open>
  The attributes of a node object.  An attribute that may be unset (\<open>hasattr\<close> false)
  is an option.  The last four fields are set by \<open>Plate.__init__\<close> only.
\<close>

record node =
  n_kind :: node_kind
  n_group :: znode
  n_channel_names :: "ref option"
  n_axes :: "axis list option"
  n_overwrite :: bool
  n_version :: string
  n_metadata :: "meta option"
  n_name :: "string option"
  n_acquisitions :: "int list"
  n_rows :: "(string \<times> int) list"
  n_cols :: "(string \<times> int) list"


text \<open>\<open>Position._parse_meta\<close>.\<close>

definition position_parse_meta :: "schema \<Rightarrow> node \<Rightarrow> heap \<Rightarrow> error + (node \<times> heap)" where
  "position_parse_meta sch self h =
     (let multiscales = attrs_get (z_attrs (n_group self)) ''multiscales'';
          omero = attrs_get (z_attrs (n_group self)) ''omero''
      in if truthy multiscales \<and> truthy omero then
           (case ImagesMeta sch multiscales omero of
              None \<Rightarrow> Inr (self, h)
            | Some m \<Rightarrow>
                (case alloc h (im_omero_channels m) of (r, h') \<Rightarrow>
                  (case im_multiscales m of
                     [] \<Rightarrow> Inl IndexError
                   | ms0 # _ \<Rightarrow>
                       Inr (self\<lparr> n_metadata := Some (ImagesM m),
                                  n_channel_names := Some r,
                                  n_axes := Some (ms_axes ms0) \<rparr>, h'))))
         else Inr (self, h))"

text \<open>\<open>Well._parse_meta\<close>.\<close>

definition well_parse_meta :: "schema \<Rightarrow> node \<Rightarrow> heap \<Rightarrow> error + (node \<times> heap)" where
  "well_parse_meta sch self h =
     (let well_group_meta = attrs_get (z_attrs (n_group self)) ''well''
      in if truthy well_group_meta then
           (case unpack_into (WellGroupMeta sch) well_group_meta of
              Inl e \<Rightarrow> Inl e
            | Inr m \<Rightarrow> Inr (self\<lparr> n_metadata := Some (WellM m) \<rparr>, h))
         else Inr (self, h))"

text \<open>\<open>Row._parse_meta\<close>: the row has no metadata.\<close>

definition row_parse_meta :: "schema \<Rightarrow> node \<Rightarrow> heap \<Rightarrow> error + (node \<times> heap)" where
  "row_parse_meta sch self h = Inr (self, h)"

text \<open>
  \<open>NGFFNode.__init__\<close>, with the \<open>_parse_meta\<close> of the class being constructed as an
  argument.  The Plate fields get the values \<open>Plate.__init__\<close> assigns after the call.
\<close>

definition list_truthy :: "heap \<Rightarrow> ref option \<Rightarrow> bool" where
  "list_truthy h channel_names' = (case channel_names' of None \<Rightarrow> False | Some r \<Rightarrow> h ! r \<noteq> [])"

definition axes_truthy :: "axis list option \<Rightarrow> bool" where
  "axes_truthy axes = (case axes of None \<Rightarrow> False | Some xs \<Rightarrow> xs \<noteq> [])"

definition NGFFNode_init ::
  "(node \<Rightarrow> heap \<Rightarrow> error + (node \<times> heap)) \<Rightarrow> node_kind \<Rightarrow> znode \<Rightarrow> bool \<Rightarrow> ref option
     \<Rightarrow> axis list option \<Rightarrow> string \<Rightarrow> bool \<Rightarrow> heap \<Rightarrow> error + (node \<times> heap)" where
  "NGFFNode_init parse_meta_method kind grp parse_meta channel_names' axes version
       overwriting_creation h =
     (if \<not> list_truthy h channel_names' \<and> \<not> parse_meta then Inl ValueError
      else
        (let self = \<lparr> n_kind = kind, n_group = grp,
                       n_channel_names = (if list_truthy h channel_names' then channel_names' else None),
                       n_axes = (if axes_truthy axes then axes else None),
                       n_overwrite = overwriting_creation, n_version = version,
                       n_metadata = None, n_name = None, n_acquisitions = [0],
                       n_rows = [], n_cols = [] \<rparr>
         in case (if parse_meta then parse_meta_method self h else Inr (self, h)) of
              Inl e \<Rightarrow> Inl e
            | Inr (self', h') \<Rightarrow>
                Inr (if n_axes self' = None then self'\<lparr> n_axes := Some DEFAULT_AXES \<rparr> else self',
                     h')))"

text \<open>\<open>Position(group)\<close> with every other argument at its default, as
  \<open>_first_pos_attr\<close> calls it.\<close>

definition Position_default :: "schema \<Rightarrow> znode \<Rightarrow> heap \<Rightarrow> error + (node \<times> heap)" where
  "Position_default sch grp h =
     NGFFNode_init (position_parse_meta sch) PositionK grp True None None ''0.4'' False h"

text \<open>The three nested \<open>next(...)\<close> of \<open>_first_pos_attr\<close>; \<open>None\<close> is StopIteration.\<close>

definition first_position_group :: "znode \<Rightarrow> znode option" where
  "first_position_group g =
     (case first_group g of None \<Rightarrow> None | Some row_grp \<Rightarrow>
       (case first_group row_grp of None \<Rightarrow> None | Some well_grp \<Rightarrow> first_group well_grp))"

text \<open>\<open>Plate._first_pos_attr\<close> for the attribute \<open>_channel_names\<close>.\<close>

definition first_pos_channel_names :: "schema \<Rightarrow> node \<Rightarrow> heap \<Rightarrow> error + (node \<times> heap)" where
  "first_pos_channel_names sch self h =
     (case first_position_group (n_group self) of
        None \<Rightarrow> Inr (self, h)
      | Some pos_grp \<Rightarrow>
          (case Position_default sch pos_grp h of
             Inl e \<Rightarrow> (if e = AttributeError then Inr (self, h) else Inl e)
           | Inr (pos, h') \<Rightarrow>
               (case n_channel_names pos of
                  None \<Rightarrow> Inr (self, h')
                | Some r \<Rightarrow> Inr (self\<lparr> n_channel_names := Some r \<rparr>, h'))))"

text \<open>\<open>Plate._first_pos_attr\<close> for the attribute \<open>axes\<close>.\<close>

definition first_pos_axes :: "schema \<Rightarrow> node \<Rightarrow> heap \<Rightarrow> error + (node \<times> heap)" where
  "first_pos_axes sch self h =
     (case first_position_group (n_group self) of
        None \<Rightarrow> Inr (self, h)
      | Some pos_grp \<Rightarrow>
          (case Position_default sch pos_grp h of
             Inl e \<Rightarrow> (if e = AttributeError then Inr (self, h) else Inl e)
           | Inr (pos, h') \<Rightarrow>
               (case n_axes pos of
                  None \<Rightarrow> Inr (self, h')
                | Some a \<Rightarrow> Inr (self\<lparr> n_axes := Some a \<rparr>, h'))))"

text \<open>\<open>Plate._parse_meta\<close>.\<close>

definition plate_parse_meta :: "schema \<Rightarrow> node \<Rightarrow> heap \<Rightarrow> error + (node \<times> heap)" where
  "plate_parse_meta sch self h =
     (let plate_meta = attrs_get (z_attrs (n_group self)) ''plate'' in
      case (if truthy plate_meta then
              (case unpack_into (PlateMeta sch) plate_meta of
                 Inl e \<Rightarrow> Inl e
               | Inr m \<Rightarrow> Inr (self\<lparr> n_metadata := Some (PlateM m) \<rparr>))
            else Inr self) of
        Inl e \<Rightarrow> Inl e
      | Inr self1 \<Rightarrow>
          (case (if n_channel_names self1 = None then first_pos_channel_names sch self1 h
                 else Inr (self1, h)) of
             Inl e \<Rightarrow> Inl e
           | Inr (self2, h2) \<Rightarrow>
               (if n_axes self2 = None then first_pos_axes sch self2 h2 else Inr (self2, h2))))"

text \<open>The \<open>_parse_meta\<close> that a class dispatches to.\<close>

fun parse_meta_of :: "schema \<Rightarrow> node_kind \<Rightarrow> node \<Rightarrow> heap \<Rightarrow> error + (node \<times> heap)" where
  "parse_meta_of sch PositionK = position_parse_meta sch"
| "parse_meta_of sch WellK = well_parse_meta sch"
| "parse_meta_of sch RowK = row_parse_meta sch"
| "parse_meta_of sch PlateK = plate_parse_meta sch"
| "parse_meta_of sch ImageArrayK = (\<lambda>self h. Inl AttributeError)"

text \<open>The constructor of \<open>Position\<close>, \<open>Well\<close> and \<open>Row\<close> (all three only call
  \<open>NGFFNode.__init__\<close>), and of \<open>Plate\<close> without \<open>name\<close> and \<open>acquisitions\<close>.\<close>

definition new_node ::
  "schema \<Rightarrow> node_kind \<Rightarrow> znode \<Rightarrow> bool \<Rightarrow> ref option \<Rightarrow> axis list option \<Rightarrow> string \<Rightarrow> bool
     \<Rightarrow> heap \<Rightarrow> error + (node \<times> heap)" where
  "new_node sch kind = NGFFNode_init (parse_meta_of sch kind) kind"

text \<open>The property \<open>_child_attrs\<close>: version, axes, channel names and overwrite flag, the
  list of channel names being the node's own list object.\<close>

definition child_attrs :: "node \<Rightarrow> error + (string \<times> axis list option \<times> ref \<times> bool)" where
  "child_attrs self =
     (case n_channel_names self of
        None \<Rightarrow> Inl AttributeError
      | Some r \<Rightarrow> Inr (n_version self, n_axes self, r, n_overwrite self))"

text \<open>\<open>_pad_shape\<close>: a non-positive \<open>pad\<close> repeats the tuple \<open>(1,)\<close> zero times.\<close>

definition pad_shape :: "nat list \<Rightarrow> nat \<Rightarrow> nat list" where
  "pad_shape shape target = replicate (target - length shape) 1 @ shape"

text \<open>\<open>ImageArray._get_dims\<close>, which \<open>ImageArray.__init__\<close> ends with: the padded
  shape is unpacked into five names, which raises ValueError when it has more than
  five elements.\<close>

definition get_dims :: "nat list \<Rightarrow> error + nat list" where
  "get_dims shape =
     (if length (pad_shape shape 5) = 5 then Inr (pad_shape shape 5) else Inl ValueError)"

text \<open>What \<open>__getitem__\<close> returns: an image array (its shape is kept) or a node.\<close>

datatype item = ItemArray "nat list" | ItemNode node

text \<open>\<open>item_type = item_type._MEMBER_TYPE\<close>, \<open>levels\<close> times.\<close>

fun descend :: "nat \<Rightarrow> node_kind \<Rightarrow> error + node_kind" where
  "descend 0 k = Inr k"
| "descend (Suc n) k = (case MEMBER_TYPE k of None \<Rightarrow> Inl AttributeError | Some k' \<Rightarrow> descend n k')"

text \<open>
  \<open>NGFFNode.__getitem__\<close>.  The key is given as
  \<open>normalize_storage_path(key).split("/")\<close>, a non-empty list of segments.
\<close>

definition getitem :: "schema \<Rightarrow> node \<Rightarrow> string list \<Rightarrow> heap \<Rightarrow> error + (item \<times> heap)" where
  "getitem sch self key h =
     (case znode_truth (z_get (n_group self) key) of
        Inl e \<Rightarrow> Inl e
      | Inr t \<Rightarrow>
          (case z_get (n_group self) key of
             None \<Rightarrow> Inl KeyError
           | Some znode \<Rightarrow>
               if \<not> t then Inl KeyError
               else
                 (case MEMBER_TYPE (n_kind self) of
                    None \<Rightarrow> Inl AttributeError
                  | Some member \<Rightarrow>
                      (case descend (length key - 1) member of
                         Inl e \<Rightarrow> Inl e
                       | Inr item_type \<Rightarrow>
                           if item_type = ImageArrayK then
                             (case znode of
                                ZArray a shape \<Rightarrow>
                                  (case get_dims shape of
                                     Inl e \<Rightarrow> Inl e
                                   | Inr dims \<Rightarrow> Inr (ItemArray shape, h))
                              | ZGroup a ms \<Rightarrow> Inl AttributeError)
                           else
                             (case child_attrs self of
                                Inl e \<Rightarrow> Inl e
                              | Inr (version, axes, names, overwrite) \<Rightarrow>
                                  (case new_node sch item_type znode True (Some names) axes
                                          version overwrite h of
                                     Inl e \<Rightarrow> Inl e
                                   | Inr (child, h') \<Rightarrow> Inr (ItemNode child, h')))))))"


subsection \<open>The chunked-array engine\<close>

text \<open>
  What the source asks of Zarr and of the file system, taken as parameters:
  \<open>array.resize(shape)\<close> from the current shape and the requested one (the new
  shape, or the exception),
  \<open>zarr.util.normalize_storage_path\<close>, and \<open>zarr.DirectoryStore\<close> followed by
  \<open>zarr.open_group\<close> on a path in a given state, which returns the root group unless
  it raises (\<open>None\<close>) and the state it leaves the path in.
\<close>

datatype path_state = Absent | RegularFile | Directory "znode option"

record engine =
  resize :: "nat list \<Rightarrow> nat list \<Rightarrow> error + nat list"
  normalize_storage_path :: "string \<Rightarrow> string"
  open_group :: "path_state \<Rightarrow> string \<Rightarrow> znode option \<times> path_state"

definition path_exists :: "path_state \<Rightarrow> bool" where
  "path_exists p = (p \<noteq> Absent)"

fun path_isdir :: "path_state \<Rightarrow> bool" where
  "path_isdir (Directory d) = True"
| "path_isdir p = False"

text \<open>\<open>os.path.join(a, b)\<close> on POSIX paths.\<close>

definition path_join :: "string \<Rightarrow> string \<Rightarrow> string" where
  "path_join a b =
     (if is_prefix ''/'' b \<and> b \<noteq> [] then b
      else if a = [] \<or> last a = CHR ''/'' then a @ b
      else a @ ''/'' @ b)"

subsection \<open>Position\<close>

text \<open>\<open>Position.dump_meta\<close>, \<open>Well.dump_meta\<close> and \<open>Plate.dump_meta\<close> (without the field
  count); each reads \<open>self.metadata\<close>.\<close>

definition dump_meta :: "schema \<Rightarrow> node \<Rightarrow> error + node" where
  "dump_meta sch self =
     (case n_metadata self of
        None \<Rightarrow> Inl AttributeError
      | Some (ImagesM m) \<Rightarrow>
          Inr (self\<lparr> n_group := set_attrs (attrs_update (z_attrs (n_group self)) (images_dict sch m))
                                          (n_group self) \<rparr>)
      | Some (WellM m) \<Rightarrow>
          Inr (self\<lparr> n_group := set_attrs (attrs_update (z_attrs (n_group self))
                                                      [(''well'', well_dict sch m)])
                                          (n_group self) \<rparr>)
      | Some (PlateM m) \<Rightarrow>
          Inr (self\<lparr> n_group := set_attrs (attrs_update (z_attrs (n_group self))
                                                      [(''plate'', plate_dict sch m)])
                                          (n_group self) \<rparr>))"

text \<open>\<open>_find_axis\<close>: the index of the first axis of the given type.\<close>

fun find_axis_from :: "nat \<Rightarrow> axis list \<Rightarrow> string \<Rightarrow> nat option" where
  "find_axis_from i [] axis_type = None"
| "find_axis_from i (a # as) axis_type =
     (if ax_type a = axis_type then Some i else find_axis_from (Suc i) as axis_type)"

definition find_axis :: "node \<Rightarrow> string \<Rightarrow> error + nat option" where
  "find_axis self axis_type =
     (case n_axes self of
        None \<Rightarrow> Inl AttributeError
      | Some axes \<Rightarrow> Inr (find_axis_from 0 axes axis_type))"




text \<open>The shape that the loop of \<open>append_channel\<close> computes for one image.\<close>

definition new_shape :: "nat \<Rightarrow> nat list \<Rightarrow> error + nat list" where
  "new_shape ch_ax shape =
     (if ch_ax < length shape then Inr (shape[ch_ax := shape ! ch_ax + 1])
      else if ch_ax = length shape then Inr (pad_shape shape (length shape + 1))
      else Inl IndexError)"

text \<open>\<open>img.resize(shape)\<close> written into the position's group.\<close>

definition store_shape :: "string \<Rightarrow> nat list \<Rightarrow> znode \<Rightarrow> znode" where
  "store_shape key s g =
     (case map_of (z_members g) key of
        Some (ZArray a old) \<Rightarrow> set_member key (ZArray a s) g
      | _ \<Rightarrow> g)"

text \<open>
  The loop \<open>for _, img in self.images()\<close> of \<open>append_channel\<close>.  \<open>images\<close> is
  \<open>iteritems\<close>, which walks the array keys and skips, with a warning, a key whose
  \<open>self[key]\<close> raises; an exception of the loop body is not caught.
\<close>

fun resize_loop ::
  "schema \<Rightarrow> engine \<Rightarrow> nat \<Rightarrow> string list \<Rightarrow> node \<Rightarrow> heap \<Rightarrow> (error + unit) \<times> node" where
  "resize_loop sch eng ch_ax [] self h = (Inr (), self)"
| "resize_loop sch eng ch_ax (key # keys) self h =
     (case getitem sch self [key] h of
        Inl e \<Rightarrow> resize_loop sch eng ch_ax keys self h
      | Inr (ItemNode n, h') \<Rightarrow> (Inl AttributeError, self)
      | Inr (ItemArray shape, h') \<Rightarrow>
          (case new_shape ch_ax shape of
             Inl e \<Rightarrow> (Inl e, self)
           | Inr shape' \<Rightarrow>
               (case resize eng shape shape' of
                  Inl e \<Rightarrow> (Inl e, self)
                | Inr s \<Rightarrow>
                    resize_loop sch eng ch_ax keys
                      (self\<lparr> n_group := store_shape key s (n_group self) \<rparr>) h)))"

text \<open>
  \<open>Position.append_channel\<close>.  The result is the outcome together with the node and
  the heap as the call leaves them, also when it raises.  The membership test
  \<open>"omero" in self.metadata.dict().keys()\<close> is true for every image document, whose
  schema declares the field.
\<close>

definition append_channel ::
  "schema \<Rightarrow> engine \<Rightarrow> string \<Rightarrow> bool \<Rightarrow> node \<Rightarrow> heap \<Rightarrow> (error + unit) \<times> node \<times> heap" where
  "append_channel sch eng chan_name resize_arrays self h =
     (if n_kind self \<noteq> PositionK then (Inl AttributeError, self, h)
      else
        (case n_channel_names self of
           None \<Rightarrow> (Inl AttributeError, self, h)
         | Some r \<Rightarrow>
             if chan_name \<in> set (h ! r) then (Inl ValueError, self, h)
             else
               (let h1 = list_append h r chan_name in
                case (if resize_arrays then
                        (case find_axis self ''channel'' of
                           Inl e \<Rightarrow> (Inl e, self)
                         | Inr None \<Rightarrow> (Inl KeyError, self)
                         | Inr (Some ch_ax) \<Rightarrow>
                             resize_loop sch eng ch_ax (array_keys (n_group self)) self h1)
                      else (Inr (), self)) of
                  (Inl e, self1) \<Rightarrow> (Inl e, self1, h1)
                | (Inr u, self1) \<Rightarrow>
                    (case n_metadata self1 of
                       Some (ImagesM m) \<Rightarrow>
                         (case dump_meta sch
                                 (self1\<lparr> n_metadata := Some (ImagesM
                                    (m\<lparr> im_omero_channels := im_omero_channels m @ [chan_name] \<rparr>)) \<rparr>) of
                            Inl e \<Rightarrow> (Inl e, self1, h1)
                          | Inr self2 \<Rightarrow> (Inr (), self2, h1))
                     | _ \<Rightarrow> (Inl AttributeError, self1, h1)))))"

text \<open>The shapes of the image arrays of a position, by name.\<close>

definition image_shape :: "node \<Rightarrow> string \<Rightarrow> nat list option" where
  "image_shape self key =
     (case map_of (z_members (n_group self)) key of
        Some (ZArray a shape) \<Rightarrow> Some shape
      | _ \<Rightarrow> None)"


subsection \<open>Well\<close>


subsection \<open>Plate\<close>

text \<open>
  A value passed where \<open>_auto_idx\<close> expects the name: \<open>create_well\<close> passes its
  \<open>row_index\<close> and \<open>col_index\<close> arguments there, which are \<open>None\<close> or an int.
\<close>

datatype pykey = KNone | KInt int | KStr string

text \<open>\<open>known.get(name)\<close> on a dict whose keys are strings.\<close>

fun known_get :: "(string \<times> int) list \<Rightarrow> pykey \<Rightarrow> int option" where
  "known_get known (KStr s) = map_of known s"
| "known_get known k = None"

text \<open>\<open>max(used)\<close> of a non-empty sequence.\<close>

fun py_max :: "int list \<Rightarrow> int" where
  "py_max [] = 0"
| "py_max (v # vs) = fold max vs v"

text \<open>\<open>Plate._auto_idx\<close>: an index found under \<open>name\<close> is returned only when it is
  not 0, since \<open>if idx := ...\<close> tests its truth value.\<close>

definition auto_idx :: "pykey \<Rightarrow> (string \<times> int) list \<Rightarrow> int" where
  "auto_idx name known =
     (case known_get known name of
        Some idx \<Rightarrow> if idx \<noteq> 0 then idx
                    else (if map snd known \<noteq> [] then py_max (map snd known) + 1 else 0)
      | None \<Rightarrow> (if map snd known \<noteq> [] then py_max (map snd known) + 1 else 0))"

definition index_arg :: "int option \<Rightarrow> pykey" where
  "index_arg i = (case i of None \<Rightarrow> KNone | Some n \<Rightarrow> KInt n)"

text \<open>\<open>Plate._build_meta\<close>: the plate document is constructed from the first row,
  column and well.\<close>

definition build_meta ::
  "schema \<Rightarrow> node \<Rightarrow> string \<Rightarrow> string \<Rightarrow> string \<times> int \<times> int \<Rightarrow> error + node" where
  "build_meta sch self first_row_meta first_col_meta first_well_meta =
     (if valid_plate sch
           \<lparr> pm_version = n_version self, pm_name = n_name self,
             pm_acquisitions = n_acquisitions self,
             pm_rows = [first_row_meta], pm_columns = [first_col_meta],
             pm_wells = [first_well_meta] \<rparr>
      then Inr (self\<lparr> n_metadata := Some (PlateM
             \<lparr> pm_version = n_version self, pm_name = n_name self,
               pm_acquisitions = n_acquisitions self,
               pm_rows = [first_row_meta], pm_columns = [first_col_meta],
               pm_wells = [first_well_meta] \<rparr>) \<rparr>)
      else Inl ValidationError)"

text \<open>\<open>self.zgroup[row_name]\<close>: KeyError when there is no such member.\<close>

definition getitem_group :: "znode \<Rightarrow> string \<Rightarrow> error + znode" where
  "getitem_group g k = getitem_dict (z_members g) k"

text \<open>The part of \<open>Plate.create_well\<close> that is the \<open>if\<close> on the row: the row group
  and the plate at its end.  \<open>PlateAxisMeta(name=row_name)\<close> is constructed after the
  group of a new row has been created.\<close>

definition create_well_row ::
  "schema \<Rightarrow> node \<Rightarrow> string \<Rightarrow> string \<Rightarrow> int \<Rightarrow> int \<Rightarrow> error + (znode \<times> node)" where
  "create_well_row sch self row_name col_name row_index col_index =
     (let well_index_meta = (path_join row_name col_name, row_index, col_index) in
      if row_name \<notin> fst ` set (n_rows self) then
        (case create_group (n_group self) row_name (n_overwrite self) of
           Inl e \<Rightarrow> Inl e
         | Inr (row_grp, g') \<Rightarrow>
             if \<not> valid_axis_name sch row_name then Inl ValidationError
             else
               (let self1 = self\<lparr> n_group := g',
                                  n_rows := AList.update row_name row_index (n_rows self) \<rparr> in
                case n_metadata self1 of
                  None \<Rightarrow>
                    (case build_meta sch self1 row_name col_name well_index_meta of
                       Inl e \<Rightarrow> Inl e
                     | Inr self2 \<Rightarrow> Inr (row_grp, self2))
                | Some (PlateM m) \<Rightarrow>
                    Inr (row_grp, self1\<lparr> n_metadata := Some (PlateM
                           (m\<lparr> pm_rows := pm_rows m @ [row_name],
                               pm_wells := pm_wells m @ [well_index_meta] \<rparr>)) \<rparr>)
                | Some other \<Rightarrow> Inl AttributeError))
      else
        (case getitem_group (n_group self) row_name of
           Inl e \<Rightarrow> Inl e
         | Inr row_grp \<Rightarrow>
             (case n_metadata self of
                Some (PlateM m) \<Rightarrow>
                  Inr (row_grp, self\<lparr> n_metadata := Some (PlateM
                         (m\<lparr> pm_wells := pm_wells m @ [well_index_meta] \<rparr>)) \<rparr>)
              | _ \<Rightarrow> Inl AttributeError)))"

text \<open>\<open>Plate.create_well\<close>: the new well and the plate after the call.
  \<open>WellIndexMeta(...)\<close> and \<open>PlateAxisMeta(name=col_name)\<close> are constructed, and may
  raise, before any group is made.\<close>

definition create_well ::
  "schema \<Rightarrow> engine \<Rightarrow> string \<Rightarrow> string \<Rightarrow> int option \<Rightarrow> int option \<Rightarrow> node \<Rightarrow> heap
     \<Rightarrow> error + (node \<times> node \<times> heap)" where
  "create_well sch eng row_name' col_name' row_index' col_index' self h =
     (let row_name = normalize_storage_path eng row_name';
          col_name = normalize_storage_path eng col_name';
          row_index = auto_idx (index_arg row_index') (n_rows self);
          col_index = auto_idx (index_arg col_index') (n_cols self)
      in if \<not> valid_well_index sch (path_join row_name col_name, row_index, col_index)
         then Inl ValidationError
         else if \<not> valid_axis_name sch col_name then Inl ValidationError
         else
          (case create_well_row sch self row_name col_name row_index col_index of
           Inl e \<Rightarrow> Inl e
         | Inr (row_grp, self2) \<Rightarrow>
             (case n_metadata self2 of
                Some (PlateM m) \<Rightarrow>
                  (let self3 =
                         (if col_name \<notin> set (pm_columns m)
                          then self2\<lparr> n_metadata := Some (PlateM
                                        (m\<lparr> pm_columns := pm_columns m @ [col_name] \<rparr>)),
                                      n_cols := AList.update col_name col_index (n_cols self2) \<rparr>
                          else self2)
                   in case create_group row_grp col_name (n_overwrite self3) of
                        Inl e \<Rightarrow> Inl e
                      | Inr (well_grp, row_grp') \<Rightarrow>
                          (case dump_meta sch
                                  (self3\<lparr> n_group := set_member row_name row_grp' (n_group self3) \<rparr>) of
                             Inl e \<Rightarrow> Inl e
                           | Inr self4 \<Rightarrow>
                               (case child_attrs self4 of
                                  Inl e \<Rightarrow> Inl e
                                | Inr (version, axes, names, overwrite) \<Rightarrow>
                                    (case new_node sch WellK well_grp False (Some names) axes
                                            version overwrite h of
                                       Inl e \<Rightarrow> Inl e
                                     | Inr (well, h') \<Rightarrow> Inr (well, self4, h')))))
              | _ \<Rightarrow> Inl AttributeError)))"

subsection \<open>Opening a store\<close>

text \<open>\<open>_open_store\<close>.  For a version other than 0.4 the argument of the warning is
  \<open>"\\n".join(a, b)\<close>, a call of \<open>str.join\<close> with two arguments, which raises TypeError.
  Any exception of the engine becomes a RuntimeError.\<close>

definition open_store ::
  "engine \<Rightarrow> path_state \<Rightarrow> string \<Rightarrow> string \<Rightarrow> (error + znode) \<times> path_state" where
  "open_store eng store_path mode version =
     (if \<not> path_isdir store_path \<and> (mode = ''r'' \<or> mode = ''r+'')
      then (Inl FileNotFoundError, store_path)
      else if version \<noteq> ''0.4'' then (Inl TypeError, store_path)
      else (case open_group eng store_path mode of
              (None, p') \<Rightarrow> (Inl RuntimeError, p')
            | (Some root, p') \<Rightarrow> (Inr root, p')))"

text \<open>The first statement of \<open>open_ome_zarr\<close>: mode \<open>a\<close> becomes \<open>r+\<close> or \<open>w-\<close>.\<close>

definition resolve_mode :: "path_state \<Rightarrow> string \<Rightarrow> string" where
  "resolve_mode store_path mode =
     (if mode = ''a'' then (if path_exists store_path then ''r+'' else ''w-'') else mode)"

text \<open>The layout part of \<open>open_ome_zarr\<close>: from the requested layout, \<open>parse_meta\<close>
  and the keys of the root attributes to the class of the node.\<close>

definition resolve_layout :: "string \<Rightarrow> bool \<Rightarrow> string list \<Rightarrow> error + node_kind" where
  "resolve_layout layout' parse_meta meta_keys =
     (case (if layout' = ''auto'' then
              (if parse_meta then
                 (if ''plate'' \<in> set meta_keys then Inr ''hcs''
                  else if ''multiscales'' \<in> set meta_keys then Inr ''fov''
                  else Inl KeyError)
               else Inl ValueError)
            else Inr layout') of
        Inl e \<Rightarrow> Inl e
      | Inr layout \<Rightarrow>
          if layout = ''fov'' then
            (if parse_meta \<and> ''multiscales'' \<notin> set meta_keys then Inl ValueError
             else Inr PositionK)
          else if layout = ''hcs'' then
            (if parse_meta \<and> ''plate'' \<notin> set meta_keys then Inl ValueError
             else Inr PlateK)
          else Inl ValueError)"

text \<open>The last statement of \<open>open_ome_zarr\<close>: the node of the resolved class is
  constructed on the root group, with the default version and overwrite flag, as the
  source passes neither on.\<close>

definition construct_node ::
  "schema \<Rightarrow> node_kind \<Rightarrow> znode \<Rightarrow> bool \<Rightarrow> ref option \<Rightarrow> axis list option
     \<Rightarrow> path_state \<Rightarrow> heap \<Rightarrow> (error + node) \<times> path_state \<times> heap" where
  "construct_node sch kind root parse_meta channel_names' axes p h =
     (case new_node sch kind root parse_meta channel_names' axes ''0.4'' False h of
        Inl e \<Rightarrow> (Inl e, p, h)
      | Inr (nd, h') \<Rightarrow> (Inr nd, p, h'))"

text \<open>
  \<open>open_ome_zarr\<close>, called without extra keyword arguments: the outcome, the state of
  the path and the heap after the call.
\<close>

definition open_ome_zarr ::
  "schema \<Rightarrow> engine \<Rightarrow> path_state \<Rightarrow> string \<Rightarrow> string \<Rightarrow> ref option \<Rightarrow> axis list option
     \<Rightarrow> string \<Rightarrow> heap \<Rightarrow> (error + node) \<times> path_state \<times> heap" where
  "open_ome_zarr sch eng store_path layout mode' channel_names' axes version h =
     (let mode = resolve_mode store_path mode' in
      case (if mode = ''r'' \<or> mode = ''r+'' then Inr True
            else if mode = ''w-'' then
              (if path_exists store_path then Inl FileExistsError else Inr False)
            else if mode = ''w'' then Inr False
            else Inl ValueError) of
        Inl e \<Rightarrow> (Inl e, store_path, h)
      | Inr parse_meta \<Rightarrow>
          (case open_store eng store_path mode version of
             (Inl e, p') \<Rightarrow> (Inl e, p', h)
           | (Inr root, p') \<Rightarrow>
               (case resolve_layout layout parse_meta
                       (if parse_meta then map fst (z_attrs root) else []) of
                  Inl e \<Rightarrow> (Inl e, p', h)
                | Inr kind \<Rightarrow>
                    construct_node sch kind root parse_meta channel_names' axes p' h)))"

subsection \<open>A schema and an engine for the examples\<close>

text \<open>
  An instance of the schema parameter: \<open>dict\<close> writes the fields of a document under
  the names of the OME-NGFF format.  A name of a row, a column or a position is valid
  when it is not empty and alphanumeric, a well placement when its path is a valid row
  name, a slash and a valid column name and its indices are not negative, a dataset
  path when it is not empty.  A constructor accepts exactly the documents of the
  dumped form whose parts are valid, so that a dumped valid document parses back.
\<close>

definition alnum :: "char \<Rightarrow> bool" where
  "alnum c = (c \<in> set ''abcdefghijklmnopqrstuvwxyzABCDEFGHIJKLMNOPQRSTUVWXYZ0123456789'')"

definition ex_name :: "string \<Rightarrow> bool" where
  "ex_name s = (s \<noteq> [] \<and> list_all alnum s)"

definition ex_valid_well_index :: "string \<times> int \<times> int \<Rightarrow> bool" where
  "ex_valid_well_index w =
     (case w of (p, r, c) \<Rightarrow>
        0 \<le> r \<and> 0 \<le> c \<and> ex_name (takeWhile (\<lambda>x. x \<noteq> CHR ''/'') p)
        \<and> (case dropWhile (\<lambda>x. x \<noteq> CHR ''/'') p of
              [] \<Rightarrow> False
            | slash # col \<Rightarrow> ex_name col))"

definition ex_valid_image :: "int \<times> string \<Rightarrow> bool" where
  "ex_valid_image ap = ex_name (snd ap)"

definition ex_valid_dataset :: "string \<Rightarrow> bool" where
  "ex_valid_dataset p = (p \<noteq> [])"

definition ex_valid_multiscale :: "multiscale \<Rightarrow> bool" where
  "ex_valid_multiscale ms = (ms_axes ms \<noteq> [] \<and> list_all ex_valid_dataset (ms_datasets ms))"

definition ex_valid_images :: "images_meta \<Rightarrow> bool" where
  "ex_valid_images m =
     (im_multiscales m \<noteq> [] \<and> list_all ex_valid_multiscale (im_multiscales m))"

definition ex_valid_well_group :: "well_group_meta \<Rightarrow> bool" where
  "ex_valid_well_group m = list_all ex_valid_image (wg_images m)"

definition ex_valid_plate :: "plate_meta \<Rightarrow> bool" where
  "ex_valid_plate m =
     ((pm_version m = ''0.1'' \<or> pm_version m = ''0.4'')
      \<and> list_all ex_name (pm_rows m) \<and> list_all ex_name (pm_columns m)
      \<and> list_all ex_valid_well_index (pm_wells m))"

fun raw_str :: "raw \<Rightarrow> string option" where
  "raw_str (RStr s) = Some s"
| "raw_str v = None"

fun raw_int :: "raw \<Rightarrow> int option" where
  "raw_int (RInt i) = Some i"
| "raw_int v = None"

fun raw_list :: "(raw \<Rightarrow> 'a option) \<Rightarrow> raw \<Rightarrow> 'a list option" where
  "raw_list p (RList xs) = those (map p xs)"
| "raw_list p v = None"

definition field :: "attrs \<Rightarrow> string \<Rightarrow> (raw \<Rightarrow> 'a option) \<Rightarrow> 'a option" where
  "field kv k p = (case map_of kv k of None \<Rightarrow> None | Some v \<Rightarrow> p v)"

fun raw_field :: "string \<Rightarrow> (raw \<Rightarrow> 'a option) \<Rightarrow> raw \<Rightarrow> 'a option" where
  "raw_field k p (RDict kv) = field kv k p"
| "raw_field k p v = None"

definition axis_dict :: "axis \<Rightarrow> raw" where
  "axis_dict a =
     RDict ([(''name'', RStr (ax_name a)), (''type'', RStr (ax_type a))]
            @ (case ax_unit a of None \<Rightarrow> [] | Some u \<Rightarrow> [(''unit'', RStr u)]))"

definition axis_parse :: "raw \<Rightarrow> axis option" where
  "axis_parse v =
     (case (raw_field ''name'' raw_str v, raw_field ''type'' raw_str v) of
        (Some n, Some t) \<Rightarrow>
          Some \<lparr> ax_name = n, ax_type = t, ax_unit = raw_field ''unit'' raw_str v \<rparr>
      | _ \<Rightarrow> None)"

definition multiscale_dict :: "multiscale \<Rightarrow> raw" where
  "multiscale_dict ms =
     RDict [(''axes'', RList (map axis_dict (ms_axes ms))),
            (''datasets'', RList (map (\<lambda>p. RDict [(''path'', RStr p)]) (ms_datasets ms)))]"

definition multiscale_parse :: "raw \<Rightarrow> multiscale option" where
  "multiscale_parse v =
     (case (raw_field ''axes'' (raw_list axis_parse) v,
            raw_field ''datasets'' (raw_list (raw_field ''path'' raw_str)) v) of
        (Some axes, Some paths) \<Rightarrow> Some \<lparr> ms_axes = axes, ms_datasets = paths \<rparr>
      | _ \<Rightarrow> None)"

definition ex_images_dict :: "images_meta \<Rightarrow> attrs" where
  "ex_images_dict m =
     [(''multiscales'', RList (map multiscale_dict (im_multiscales m))),
      (''omero'', RDict [(''channels'',
          RList (map (\<lambda>c. RDict [(''label'', RStr c)]) (im_omero_channels m)))])]"

definition ex_ImagesMeta :: "raw \<Rightarrow> raw \<Rightarrow> images_meta option" where
  "ex_ImagesMeta multiscales omero =
     (case (raw_list multiscale_parse multiscales,
            raw_field ''channels'' (raw_list (raw_field ''label'' raw_str)) omero) of
        (Some mss, Some labels) \<Rightarrow>
          if ex_valid_images \<lparr> im_multiscales = mss, im_omero_channels = labels \<rparr>
          then Some \<lparr> im_multiscales = mss, im_omero_channels = labels \<rparr>
          else None
      | _ \<Rightarrow> None)"

definition ex_well_dict :: "well_group_meta \<Rightarrow> raw" where
  "ex_well_dict m =
     RDict [(''images'',
        RList (map (\<lambda>ap. RDict [(''acquisition'', RInt (fst ap)), (''path'', RStr (snd ap))])
                   (wg_images m)))]"

definition image_parse :: "raw \<Rightarrow> (int \<times> string) option" where
  "image_parse v =
     (case (raw_field ''acquisition'' raw_int v, raw_field ''path'' raw_str v) of
        (Some a, Some p) \<Rightarrow> Some (a, p)
      | _ \<Rightarrow> None)"

definition ex_WellGroupMeta :: "attrs \<Rightarrow> well_group_meta option" where
  "ex_WellGroupMeta kv =
     (case field kv ''images'' (raw_list image_parse) of
        Some imgs \<Rightarrow>
          if ex_valid_well_group \<lparr> wg_images = imgs \<rparr> then Some \<lparr> wg_images = imgs \<rparr> else None
      | None \<Rightarrow> None)"

definition ex_plate_dict :: "plate_meta \<Rightarrow> raw" where
  "ex_plate_dict m =
     RDict ([(''version'', RStr (pm_version m))]
            @ (case pm_name m of None \<Rightarrow> [] | Some n \<Rightarrow> [(''name'', RStr n)])
            @ [(''acquisitions'', RList (map (\<lambda>i. RDict [(''id'', RInt i)]) (pm_acquisitions m))),
               (''rows'', RList (map (\<lambda>n. RDict [(''name'', RStr n)]) (pm_rows m))),
               (''columns'', RList (map (\<lambda>n. RDict [(''name'', RStr n)]) (pm_columns m))),
               (''wells'', RList (map (\<lambda>w. RDict [(''path'', RStr (fst w)),
                                                    (''rowIndex'', RInt (fst (snd w))),
                                                    (''columnIndex'', RInt (snd (snd w)))])
                                     (pm_wells m)))])"

definition well_index_parse :: "raw \<Rightarrow> (string \<times> int \<times> int) option" where
  "well_index_parse v =
     (case (raw_field ''path'' raw_str v, raw_field ''rowIndex'' raw_int v,
            raw_field ''columnIndex'' raw_int v) of
        (Some p, Some r, Some c) \<Rightarrow> Some (p, r, c)
      | _ \<Rightarrow> None)"

definition ex_PlateMeta :: "attrs \<Rightarrow> plate_meta option" where
  "ex_PlateMeta kv =
     (case (field kv ''version'' raw_str,
            field kv ''acquisitions'' (raw_list (raw_field ''id'' raw_int)),
            field kv ''rows'' (raw_list (raw_field ''name'' raw_str)),
            field kv ''columns'' (raw_list (raw_field ''name'' raw_str)),
            field kv ''wells'' (raw_list well_index_parse)) of
        (Some v, Some acqs, Some rows, Some cols, Some wells) \<Rightarrow>
          if ex_valid_plate
               \<lparr> pm_version = v, pm_name = field kv ''name'' raw_str, pm_acquisitions = acqs,
                 pm_rows = rows, pm_columns = cols, pm_wells = wells \<rparr>
          then Some \<lparr> pm_version = v, pm_name = field kv ''name'' raw_str, pm_acquisitions = acqs,
                      pm_rows = rows, pm_columns = cols, pm_wells = wells \<rparr>
          else None
      | _ \<Rightarrow> None)"

definition example_schema :: schema where
  "example_schema =
     \<lparr> ImagesMeta = ex_ImagesMeta, WellGroupMeta = ex_WellGroupMeta, PlateMeta = ex_PlateMeta,
       images_dict = ex_images_dict, well_dict = ex_well_dict, plate_dict = ex_plate_dict,
       valid_axis_name = ex_name, valid_well_index = ex_valid_well_index,
       valid_image = ex_valid_image, valid_dataset = ex_valid_dataset,
       valid_multiscale = ex_valid_multiscale, valid_plate = ex_valid_plate,
       valid_well_group = ex_valid_well_group, valid_images = ex_valid_images \<rparr>"

text \<open>
  An instance of the engine parameter, after Zarr: \<open>resize\<close> gives the array the
  requested shape when that has as many dimensions as the array, and raises ValueError
  when it has not; names are already normalised; and opening follows the persistence
  modes: \<open>r\<close> and \<open>r+\<close> need a group at the path, \<open>w\<close> leaves a fresh empty
  group, \<open>w-\<close> does so where there is none.
\<close>

definition ex_open_group :: "path_state \<Rightarrow> string \<Rightarrow> znode option \<times> path_state" where
  "ex_open_group p mode =
     (if mode = ''r'' \<or> mode = ''r+'' then
        (case p of Directory (Some g) \<Rightarrow> (Some g, p) | _ \<Rightarrow> (None, p))
      else if mode = ''w'' then
        (case p of
           RegularFile \<Rightarrow> (None, p)
         | _ \<Rightarrow> (Some (ZGroup [] []), Directory (Some (ZGroup [] []))))
      else if mode = ''w-'' then
        (case p of
           Absent \<Rightarrow> (Some (ZGroup [] []), Directory (Some (ZGroup [] [])))
         | Directory None \<Rightarrow> (Some (ZGroup [] []), Directory (Some (ZGroup [] [])))
         | _ \<Rightarrow> (None, p))
      else (None, p))"

definition example_engine :: engine where
  "example_engine =
     \<lparr> resize = (\<lambda>old new. if length new = length old then Inr new else Inl ValueError),
       normalize_storage_path = (\<lambda>s. s),
       open_group = ex_open_group \<rparr>"

subsection \<open>Example nodes\<close>

text \<open>A position with three channels and two image arrays, of shapes (2,3,4,5,6) and
  (3,4,5,6); its axes are the default ones, with the channel axis at index 1.\<close>

definition example_images_meta :: images_meta where
  "example_images_meta =
     \<lparr> im_multiscales = [\<lparr> ms_axes = DEFAULT_AXES, ms_datasets = [''0'', ''1''] \<rparr>],
       im_omero_channels = [''DAPI'', ''GFP'', ''RFP''] \<rparr>"

definition example_position :: node where
  "example_position =
     \<lparr> n_kind = PositionK,
       n_group = ZGroup (ex_images_dict example_images_meta)
                   [(''0'', ZArray [] [2, 3, 4, 5, 6]), (''1'', ZArray [] [3, 4, 5, 6])],
       n_channel_names = Some 0, n_axes = Some DEFAULT_AXES, n_overwrite = False,
       n_version = ''0.4'', n_metadata = Some (ImagesM example_images_meta),
       n_name = None, n_acquisitions = [0], n_rows = [], n_cols = [] \<rparr>"

definition example_heap :: heap where
  "example_heap = [[''DAPI'', ''GFP'', ''RFP'']]"





text \<open>A position with the default axes and one image array of rank 1, the index of the
  channel axis.  And \<open>append_channel("Cy5")\<close> on it.\<close>

definition flat_position :: node where
  "flat_position =
     example_position
       \<lparr> n_group := ZGroup (ex_images_dict example_images_meta) [(''0'', ZArray [] [5])] \<rparr>"

definition flat_appended :: "(error + unit) \<times> node \<times> heap" where
  "flat_appended =
     append_channel example_schema example_engine ''Cy5'' True flat_position example_heap"

text \<open>The root group of a stored plate with the single well A/1 and one position in it,
  and the root group of a stored position.\<close>

definition example_plate_root :: znode where
  "example_plate_root =
     ZGroup [(''plate'', ex_plate_dict
                \<lparr> pm_version = ''0.4'', pm_name = None, pm_acquisitions = [0],
                  pm_rows = [''A''], pm_columns = [''1''], pm_wells = [(''A/1'', 0, 0)] \<rparr>)]
            [(''A'', ZGroup [] [(''1'',
                ZGroup [(''well'', ex_well_dict \<lparr> wg_images = [(0, ''0'')] \<rparr>)]
                       [(''0'', ZGroup [] [])])])]"

definition example_position_root :: znode where
  "example_position_root =
     ZGroup (ex_images_dict example_images_meta)
       [(''0'', ZArray [] [2, 3, 4, 5, 6]), (''1'', ZArray [] [3, 4, 5, 6])]"

text \<open>A plate being created: \<open>open_ome_zarr\<close> in mode \<open>w-\<close> on a path that does not
  exist, with the hcs layout and the channel names of \<open>example_heap\<close>.\<close>

definition new_plate :: "(error + node) \<times> path_state \<times> heap" where
  "new_plate =
     open_ome_zarr example_schema example_engine Absent ''hcs'' ''w-'' (Some 0) None ''0.4''
       example_heap"

text \<open>\<open>create_well\<close> with both indices left to the plate, on the plate of an earlier
  result.\<close>

definition then_create_well ::
  "string \<Rightarrow> string \<Rightarrow> error + (node \<times> node \<times> heap) \<Rightarrow> error + (node \<times> node \<times> heap)" where
  "then_create_well row col res =
     (case res of
        Inl e \<Rightarrow> Inl e
      | Inr (w, plate, h) \<Rightarrow> create_well example_schema example_engine row col None None plate h)"

definition first_well :: "string \<Rightarrow> string \<Rightarrow> error + (node \<times> node \<times> heap)" where
  "first_well row col =
     (case new_plate of
        (Inl e, p, h) \<Rightarrow> Inl e
      | (Inr plate, p, h) \<Rightarrow> create_well example_schema example_engine row col None None plate h)"

text \<open>The plate written with the wells (A,1), (A,2), (B,1) in this order, and the same
  store reopened read-only with the layout left to \<open>auto\<close>.\<close>

definition three_wells :: "error + (node \<times> node \<times> heap)" where
  "three_wells = then_create_well ''B'' ''1'' (then_create_well ''A'' ''2'' (first_well ''A'' ''1''))"

definition reopened :: "error + node" where
  "reopened =
     (case three_wells of
        Inl e \<Rightarrow> Inl e
      | Inr (w, plate, h) \<Rightarrow>
          fst (open_ome_zarr example_schema example_engine (Directory (Some (n_group plate)))
                 ''auto'' ''r'' None None ''0.4'' h))"



text \<open>The same three wells created in the order (B,1), (A,1), (A,2).\<close>

definition three_wells_B_first :: "error + (node \<times> node \<times> heap)" where
  "three_wells_B_first =
     then_create_well ''A'' ''2'' (then_create_well ''A'' ''1'' (first_well ''B'' ''1''))"











text \<open>
  Stored groups whose metadata documents fail validation: a plate document without
  rows, columns and wells; a plate whose well A/1 has a well document with a string in
  the place of the image list; a position whose multiscales entry is a list of strings.
\<close>

definition bad_plate_root :: znode where
  "bad_plate_root = ZGroup [(''plate'', RDict [(''version'', RStr ''0.4'')])] []"

definition bad_well_root :: znode where
  "bad_well_root =
     ZGroup [(''plate'', ex_plate_dict
                \<lparr> pm_version = ''0.4'', pm_name = None, pm_acquisitions = [0],
                  pm_rows = [''A''], pm_columns = [''1''], pm_wells = [(''A/1'', 0, 0)] \<rparr>)]
            [(''A'', ZGroup [] [(''1'',
                ZGroup [(''well'', RDict [(''images'', RStr ''0'')])]
                       [(''0'', example_position_root)])])]"

definition bad_position_root :: znode where
  "bad_position_root =
     ZGroup [(''multiscales'', RList [RStr ''0'']),
             (''omero'', RDict [(''channels'', RList [RDict [(''label'', RStr ''DAPI'')]])])]
            [(''0'', ZArray [] [1, 1, 4, 5, 6])]"

text \<open>The plate of \<open>bad_well_root\<close> opened read-only, and its well A/1 taken from
  it by item access.\<close>

definition bad_well_access :: "error + item" where
  "bad_well_access =
     (case open_ome_zarr example_schema example_engine (Directory (Some bad_well_root))
             ''auto'' ''r'' None None ''0.4'' [] of
        (Inl e, p, h) \<Rightarrow> Inl e
      | (Inr plate, p, h) \<Rightarrow>
          (case getitem example_schema plate [''A'', ''1''] h of
             Inl e \<Rightarrow> Inl e
           | Inr (it, h') \<Rightarrow> Inr it))"


section \<open>Properties of the coordinate index\<close>

subsection \<open>What a successful build stores\<close>

lemma gather_page_Inr:
  assumes "gather_page tf page r = Inr r'"
  shows "\<exists>off. get_byte_offset tf page = Inr off \<and>
           coord_map r' = AList.update (page_coord tf page) (tf_path tf, page, off) (coord_map r)"
  using assms
  by (auto simp: gather_page_def page_coord_def getitem_list_def Let_def
           split: sum.splits if_splits)

lemma gather_pages_sound:
  assumes "gather_pages tf pages r = Inr r'" "map_of (coord_map r') c = Some e"
  shows "map_of (coord_map r) c = Some e \<or>
         (\<exists>page \<in> set pages. \<exists>off. page_coord tf page = c \<and> e = (tf_path tf, page, off) \<and>
             get_byte_offset tf page = Inr off)"
  using assms
proof (induction pages arbitrary: r)
  case Nil
  then show ?case by simp
next
  case (Cons page pages)
  from Cons.prems(1) obtain r1 where p: "gather_page tf page r = Inr r1"
    and rest: "gather_pages tf pages r1 = Inr r'"
    by (auto split: sum.splits)
  from gather_page_Inr [OF p] obtain off where off: "get_byte_offset tf page = Inr off"
    and cm: "coord_map r1 = AList.update (page_coord tf page) (tf_path tf, page, off) (coord_map r)"
    by blast
  from Cons.IH [OF rest Cons.prems(2)] show ?case
  proof
    assume "map_of (coord_map r1) c = Some e"
    with cm off show ?thesis
      by (auto simp: update_conv' split: if_splits)
  next
    assume "\<exists>page \<in> set pages. \<exists>off. page_coord tf page = c \<and> e = (tf_path tf, page, off) \<and>
             get_byte_offset tf page = Inr off"
    then show ?thesis by auto
  qed
qed

lemma gather_pages_dom:
  assumes "gather_pages tf pages r = Inr r'"
  shows "dom (map_of (coord_map r')) = dom (map_of (coord_map r)) \<union> page_coord tf ` set pages"
  using assms
proof (induction pages arbitrary: r)
  case Nil
  then show ?case by simp
next
  case (Cons page pages)
  from Cons.prems(1) obtain r1 where p: "gather_page tf page r = Inr r1"
    and rest: "gather_pages tf pages r1 = Inr r'"
    by (auto split: sum.splits)
  from gather_page_Inr [OF p] obtain off where
    cm: "coord_map r1 = AList.update (page_coord tf page) (tf_path tf, page, off) (coord_map r)"
    by blast
  from Cons.IH [OF rest] cm show ?case
    by (auto simp: update_conv')
qed

lemma gather_index_maps_sound:
  assumes "gather_index_maps files r = Inr r'" "map_of (coord_map r') c = Some e"
  shows "map_of (coord_map r) c = Some e \<or> recorded files c e"
  using assms
proof (induction files arbitrary: r)
  case Nil
  then show ?case by simp
next
  case (Cons tf files)
  from Cons.prems(1) obtain r1
    where p: "gather_pages tf [0 ..< length (im_Channel (tf_IndexMap tf))] r = Inr r1"
    and rest: "gather_index_maps files r1 = Inr r'"
    by (auto split: sum.splits)
  from Cons.IH [OF rest Cons.prems(2)] show ?case
  proof
    assume "map_of (coord_map r1) c = Some e"
    from gather_pages_sound [OF p this] show ?thesis
      by (auto simp: recorded_def)
  next
    assume "recorded files c e"
    then show ?thesis by (auto simp: recorded_def)
  qed
qed

lemma gather_index_maps_dom:
  assumes "gather_index_maps files r = Inr r'"
  shows "dom (map_of (coord_map r')) =
           dom (map_of (coord_map r)) \<union>
           (\<Union>tf \<in> set files. page_coord tf ` {..< length (im_Channel (tf_IndexMap tf))})"
  using assms
proof (induction files arbitrary: r)
  case Nil
  then show ?case by simp
next
  case (Cons tf files)
  from Cons.prems(1) obtain r1
    where p: "gather_pages tf [0 ..< length (im_Channel (tf_IndexMap tf))] r = Inr r1"
    and rest: "gather_index_maps files r1 = Inr r'"
    by (auto split: sum.splits)
  from Cons.IH [OF rest] gather_pages_dom [OF p] show ?case
    by (auto simp: lessThan_atLeast0)
qed

lemma build_example_index:
  "gather_index_maps [file_pos0, file_pos1] reader0 = Inr example_index"
  by (simp add: example_index_def file_pos0_def file_pos1_def reader0_def gather_page_def
        getitem_list_def get_byte_offset_def tags_at_def upt_conv_Cons)

text \<open>
  C1.  After a successful build from an empty \<open>coord_map\<close>: whatever a lookup returns
  is an entry recorded for that coordinate by some page of some file; every coordinate
  of every page is found; where no other page has the same coordinate, the lookup
  returns exactly that page's (file, page, byte offset); and a coordinate that no page
  of any file has raises KeyError, in the dictionary and so in \<open>_get_image\<close>, before
  any data is read.
\<close>

theorem lookup_returns_inserted:
  assumes "gather_index_maps files r = Inr r'" and "coord_map r = []"
  shows "(\<forall>c e. getitem_dict (coord_map r') c = Inr e \<longrightarrow> recorded files c e)
       \<and> (\<forall>tf \<in> set files. \<forall>page < length (im_Channel (tf_IndexMap tf)).
            \<exists>e. getitem_dict (coord_map r') (page_coord tf page) = Inr e)
       \<and> (\<forall>tf \<in> set files. \<forall>page < length (im_Channel (tf_IndexMap tf)).
            (\<forall>tf' \<in> set files. \<forall>page' < length (im_Channel (tf_IndexMap tf')).
               page_coord tf' page' = page_coord tf page \<longrightarrow> tf' = tf \<and> page' = page) \<longrightarrow>
            (\<exists>off. get_byte_offset tf page = Inr off \<and>
               getitem_dict (coord_map r') (page_coord tf page) = Inr (tf_path tf, page, off)))
       \<and> (\<forall>c. (\<forall>tf \<in> set files. \<forall>page < length (im_Channel (tf_IndexMap tf)).
                  page_coord tf page \<noteq> c) \<longrightarrow>
              getitem_dict (coord_map r') c = Inl KeyError \<and>
              (\<forall>memmap. get_image memmap r' c = (Inl KeyError :: error + 'p)))"
proof -
  have dom: "dom (map_of (coord_map r')) =
      (\<Union>tf \<in> set files. page_coord tf ` {..< length (im_Channel (tf_IndexMap tf))})"
    using gather_index_maps_dom [OF assms(1)] assms(2) by simp
  have sound: "recorded files c e" if "getitem_dict (coord_map r') c = Inr e" for c e
  proof -
    from that have "map_of (coord_map r') c = Some e"
      by (auto simp: getitem_dict_def split: option.splits)
    from gather_index_maps_sound [OF assms(1) this] assms(2) show ?thesis by simp
  qed
  have complete: "\<exists>e. getitem_dict (coord_map r') (page_coord tf page) = Inr e"
    if "tf \<in> set files" "page < length (im_Channel (tf_IndexMap tf))" for tf page
  proof -
    from that have "page_coord tf page \<in> dom (map_of (coord_map r'))"
      unfolding dom by blast
    then show ?thesis by (auto simp: getitem_dict_def)
  qed
  have exact: "\<exists>off. get_byte_offset tf page = Inr off \<and>
               getitem_dict (coord_map r') (page_coord tf page) = Inr (tf_path tf, page, off)"
    if "tf \<in> set files" "page < length (im_Channel (tf_IndexMap tf))"
      and uniq: "\<forall>tf' \<in> set files. \<forall>page' < length (im_Channel (tf_IndexMap tf')).
               page_coord tf' page' = page_coord tf page \<longrightarrow> tf' = tf \<and> page' = page"
    for tf page
  proof -
    from complete [OF that(1,2)] obtain e
      where e: "getitem_dict (coord_map r') (page_coord tf page) = Inr e" by blast
    from sound [OF e] obtain tf' page' off where
      "tf' \<in> set files" "page' < length (im_Channel (tf_IndexMap tf'))"
      "page_coord tf' page' = page_coord tf page" "e = (tf_path tf', page', off)"
      "get_byte_offset tf' page' = Inr off"
      unfolding recorded_def by blast
    with uniq e show ?thesis by auto
  qed
  have absent: "getitem_dict (coord_map r') c = Inl KeyError \<and>
              (\<forall>memmap. get_image memmap r' c = (Inl KeyError :: error + 'p))"
    if "\<forall>tf \<in> set files. \<forall>page < length (im_Channel (tf_IndexMap tf)). page_coord tf page \<noteq> c"
    for c
  proof -
    from that have "c \<notin> dom (map_of (coord_map r'))"
      unfolding dom by auto
    then have "getitem_dict (coord_map r') c = Inl KeyError"
      by (auto simp: getitem_dict_def split: option.splits)
    then show ?thesis by (simp add: get_image_def)
  qed
  from sound complete exact absent show ?thesis by blast
qed

theorem lookup_returns_inserted_witness:
  "gather_index_maps [file_pos0, file_pos1] reader0 = Inr example_index
   \<and> coord_map reader0 = []
   \<and> file_pos1 \<in> set [file_pos0, file_pos1]
   \<and> 1 < length (im_Channel (tf_IndexMap file_pos1))
   \<and> getitem_dict (coord_map example_index) (1, 0, 0, 1) = Inr (''pos1.ome.tif'', 1, Some 200)
   \<and> recorded [file_pos0, file_pos1] (1, 0, 0, 1) (''pos1.ome.tif'', 1, Some 200)
   \<and> getitem_dict (coord_map example_index) (1, 0, 0, 2) = Inl KeyError
   \<and> get_image example_memmap example_index (1, 0, 0, 2) = Inl KeyError"
proof -
  have empty: "coord_map reader0 = []"
    by (simp add: reader0_def)
  note index = lookup_returns_inserted [OF build_example_index empty]
  have found: "getitem_dict (coord_map example_index) (1, 0, 0, 1) = Inr (''pos1.ome.tif'', 1, Some 200)"
    by (simp add: example_index_def getitem_dict_def)
  from index found have rec: "recorded [file_pos0, file_pos1] (1, 0, 0, 1) (''pos1.ome.tif'', 1, Some 200)"
    by blast
  have none: "\<forall>tf \<in> set [file_pos0, file_pos1]. \<forall>page < length (im_Channel (tf_IndexMap tf)).
                 page_coord tf page \<noteq> (1, 0, 0, 2)"
    by (simp add: file_pos0_def file_pos1_def page_coord_def less_Suc_eq numeral_3_eq_3 numeral_2_eq_2)
  from index none have absent: "getitem_dict (coord_map example_index) (1, 0, 0, 2) = Inl KeyError
      \<and> get_image example_memmap example_index (1, 0, 0, 2) = Inl KeyError"
    by blast
  show ?thesis
    using build_example_index empty found rec absent
    by (simp add: file_pos1_def)
qed

subsection \<open>Extents\<close>

text \<open>
  C2.  On the dataset where position 0 has slices 0, 1, 2 and position 1 has slices 0, 1,
  \<open>_get_dimensions\<close> returns the largest coordinate of each axis, not that plus one:
  (0, 0, 2) for position 0 and (0, 0, 1) for position 1.  \<open>_create_position_array\<close>
  uses the three numbers as the shape of the array and as loop bounds, so the array of
  position 0 has shape (0, 0, 2, 4, 4) and no plane is read into it.
\<close>

theorem get_dimensions_returns_maxima:
  "gather_index_maps [file_pos0, file_pos1] reader0 = Inr example_index
   \<and> get_dimensions example_index 0 = (0, 0, 2)
   \<and> get_dimensions example_index 1 = (0, 0, 1)
   \<and> create_position_array example_memmap example_index 0 = Inr ([0, 0, 2, 4, 4], [])"
  using build_example_index
  by (simp add: example_index_def get_dimensions_def create_position_array_def py_range_def)

text \<open>
  C7.  On the same dataset the summary announced one slice; page 2 of the first file has
  slice coordinate 2 and channel coordinate 0, and the build leaves \<open>slices\<close> at 0, the
  channel coordinate, although slice coordinates up to 2 were read.
\<close>

theorem gather_index_maps_slices_from_channel:
  "gather_index_maps [file_pos0, file_pos1] reader0 = Inr example_index
   \<and> slices reader0 = 1
   \<and> page_coord file_pos0 2 = (0, 0, 0, 2)
   \<and> slices example_index = 0"
  using build_example_index
  by (simp add: example_index_def reader0_def page_coord_def file_pos0_def)


section \<open>Properties of the node hierarchy\<close>

subsection \<open>Opening a store\<close>

text \<open>
  C5.  Whatever the schema, the engine and the other arguments: mode \<open>a\<close> behaves as
  \<open>w-\<close> on a path that does not exist and as \<open>r+\<close> on one that does; \<open>w-\<close> on
  an existing path raises FileExistsError and leaves the path as it was, the engine not
  being called; \<open>r\<close> and \<open>r+\<close> on a path that does not exist raise
  FileNotFoundError.
\<close>

theorem open_ome_zarr_mode_resolution:
  "(\<not> path_exists p \<longrightarrow>
      open_ome_zarr sch eng p layout ''a'' cn ax v h = open_ome_zarr sch eng p layout ''w-'' cn ax v h)
   \<and> (path_exists p \<longrightarrow>
      open_ome_zarr sch eng p layout ''a'' cn ax v h = open_ome_zarr sch eng p layout ''r+'' cn ax v h)
   \<and> (path_exists p \<longrightarrow>
      open_ome_zarr sch eng p layout ''w-'' cn ax v h = (Inl FileExistsError, p, h))
   \<and> (\<not> path_exists p \<and> (mode = ''r'' \<or> mode = ''r+'') \<longrightarrow>
      open_ome_zarr sch eng p layout mode cn ax v h = (Inl FileNotFoundError, p, h))"
proof -
  have a_new: "open_ome_zarr sch eng p layout ''a'' cn ax v h = open_ome_zarr sch eng p layout ''w-'' cn ax v h"
    if "\<not> path_exists p"
    using that by (simp add: open_ome_zarr_def resolve_mode_def)
  have a_old: "open_ome_zarr sch eng p layout ''a'' cn ax v h = open_ome_zarr sch eng p layout ''r+'' cn ax v h"
    if "path_exists p"
    using that by (simp add: open_ome_zarr_def resolve_mode_def)
  have excl: "open_ome_zarr sch eng p layout ''w-'' cn ax v h = (Inl FileExistsError, p, h)"
    if "path_exists p"
    using that by (simp add: open_ome_zarr_def resolve_mode_def)
  have missing: "open_ome_zarr sch eng p layout mode cn ax v h = (Inl FileNotFoundError, p, h)"
    if "\<not> path_exists p" "mode = ''r'' \<or> mode = ''r+''"
  proof -
    from that(1) have "p = Absent" by (simp add: path_exists_def)
    with that(2) show ?thesis
      by (auto simp: open_ome_zarr_def resolve_mode_def open_store_def)
  qed
  from a_new a_old excl missing show ?thesis by blast
qed

theorem open_ome_zarr_mode_resolution_witness:
  "\<not> path_exists Absent
   \<and> path_exists (Directory (Some example_plate_root))
   \<and> open_ome_zarr example_schema example_engine Absent ''hcs'' ''a'' (Some 0) None ''0.4'' example_heap
       = open_ome_zarr example_schema example_engine Absent ''hcs'' ''w-'' (Some 0) None ''0.4'' example_heap
   \<and> open_ome_zarr example_schema example_engine (Directory (Some example_plate_root)) ''hcs'' ''a'' None None ''0.4'' []
       = open_ome_zarr example_schema example_engine (Directory (Some example_plate_root)) ''hcs'' ''r+'' None None ''0.4'' []
   \<and> open_ome_zarr example_schema example_engine (Directory (Some example_plate_root)) ''hcs'' ''w-'' (Some 0) None ''0.4'' example_heap
       = (Inl FileExistsError, Directory (Some example_plate_root), example_heap)
   \<and> open_ome_zarr example_schema example_engine Absent ''auto'' ''r'' None None ''0.4'' []
       = (Inl FileNotFoundError, Absent, [])"
  using open_ome_zarr_mode_resolution [of Absent example_schema example_engine "''hcs''" "Some 0" None "''0.4''" example_heap "''r''"]
    open_ome_zarr_mode_resolution [of "Directory (Some example_plate_root)" example_schema example_engine "''hcs''" None None "''0.4''" "[]" "''r''"]
    open_ome_zarr_mode_resolution [of "Directory (Some example_plate_root)" example_schema example_engine "''hcs''" "Some 0" None "''0.4''" example_heap "''r''"]
    open_ome_zarr_mode_resolution [of Absent example_schema example_engine "''auto''" None None "''0.4''" "[]" "''r''"]
  by (simp add: path_exists_def)

lemma open_existing:
  assumes "mode = ''r'' \<or> mode = ''r+''" and "path_isdir p"
    and "open_group eng p mode = (Some root, p')"
  shows "open_ome_zarr sch eng p layout mode cn ax ''0.4'' h =
           (case resolve_layout layout True (map fst (z_attrs root)) of
              Inl e \<Rightarrow> (Inl e, p', h)
            | Inr kind \<Rightarrow> construct_node sch kind root True cn ax p' h)"
  using assms
  by (auto simp: open_ome_zarr_def resolve_mode_def open_store_def)

lemma open_new:
  assumes "mode = ''w'' \<or> mode = ''w-'' \<and> \<not> path_exists p"
    and "open_group eng p mode = (Some root, p')"
  shows "open_ome_zarr sch eng p layout mode cn ax ''0.4'' h =
           (case resolve_layout layout False [] of
              Inl e \<Rightarrow> (Inl e, p', h)
            | Inr kind \<Rightarrow> construct_node sch kind root False cn ax p' h)"
  using assms
  by (auto simp: open_ome_zarr_def resolve_mode_def open_store_def)

text \<open>
  C6.  Let the engine open the store at the path and return its root group.  For an
  existing store (mode \<open>r\<close> or \<open>r+\<close> on a directory), layout \<open>auto\<close> constructs a
  Plate when the root attributes have the key \<open>plate\<close>, a Position when they have
  \<open>multiscales\<close> and not \<open>plate\<close>, and raises KeyError when they have neither; an
  explicit \<open>fov\<close> without the key \<open>multiscales\<close>, or \<open>hcs\<close> without the key
  \<open>plate\<close>, raises ValueError, and with the key constructs the node of that layout.
  For a store being created (mode \<open>w\<close>, or \<open>w-\<close> on a path that does not exist),
  \<open>auto\<close> raises ValueError and an explicit layout constructs its node.
\<close>

theorem open_ome_zarr_layout_resolution:
  assumes "open_group eng p mode = (Some root, p')"
  shows "((mode = ''r'' \<or> mode = ''r+'') \<and> path_isdir p \<longrightarrow>
            (''plate'' \<in> set (map fst (z_attrs root)) \<longrightarrow>
               open_ome_zarr sch eng p ''auto'' mode cn ax ''0.4'' h
                 = construct_node sch PlateK root True cn ax p' h)
          \<and> (''plate'' \<notin> set (map fst (z_attrs root)) \<and> ''multiscales'' \<in> set (map fst (z_attrs root)) \<longrightarrow>
               open_ome_zarr sch eng p ''auto'' mode cn ax ''0.4'' h
                 = construct_node sch PositionK root True cn ax p' h)
          \<and> (''plate'' \<notin> set (map fst (z_attrs root)) \<and> ''multiscales'' \<notin> set (map fst (z_attrs root)) \<longrightarrow>
               open_ome_zarr sch eng p ''auto'' mode cn ax ''0.4'' h = (Inl KeyError, p', h))
          \<and> (''multiscales'' \<notin> set (map fst (z_attrs root)) \<longrightarrow>
               open_ome_zarr sch eng p ''fov'' mode cn ax ''0.4'' h = (Inl ValueError, p', h))
          \<and> (''plate'' \<notin> set (map fst (z_attrs root)) \<longrightarrow>
               open_ome_zarr sch eng p ''hcs'' mode cn ax ''0.4'' h = (Inl ValueError, p', h))
          \<and> (''multiscales'' \<in> set (map fst (z_attrs root)) \<longrightarrow>
               open_ome_zarr sch eng p ''fov'' mode cn ax ''0.4'' h
                 = construct_node sch PositionK root True cn ax p' h)
          \<and> (''plate'' \<in> set (map fst (z_attrs root)) \<longrightarrow>
               open_ome_zarr sch eng p ''hcs'' mode cn ax ''0.4'' h
                 = construct_node sch PlateK root True cn ax p' h))
       \<and> (mode = ''w'' \<or> mode = ''w-'' \<and> \<not> path_exists p \<longrightarrow>
            open_ome_zarr sch eng p ''auto'' mode cn ax ''0.4'' h = (Inl ValueError, p', h)
          \<and> open_ome_zarr sch eng p ''fov'' mode cn ax ''0.4'' h
               = construct_node sch PositionK root False cn ax p' h
          \<and> open_ome_zarr sch eng p ''hcs'' mode cn ax ''0.4'' h
               = construct_node sch PlateK root False cn ax p' h)"
proof (intro conjI impI)
  assume "mode = ''w'' \<or> mode = ''w-'' \<and> \<not> path_exists p"
  note new = open_new [OF this assms]
  show "open_ome_zarr sch eng p ''auto'' mode cn ax ''0.4'' h = (Inl ValueError, p', h)"
    by (simp add: new resolve_layout_def)
  show "open_ome_zarr sch eng p ''fov'' mode cn ax ''0.4'' h
               = construct_node sch PositionK root False cn ax p' h"
    by (simp add: new resolve_layout_def)
  show "open_ome_zarr sch eng p ''hcs'' mode cn ax ''0.4'' h
               = construct_node sch PlateK root False cn ax p' h"
    by (simp add: new resolve_layout_def)
next
  assume "(mode = ''r'' \<or> mode = ''r+'') \<and> path_isdir p"
  then have "mode = ''r'' \<or> mode = ''r+''" "path_isdir p" by simp_all
  note ex = open_existing [OF this assms]
  {
    assume "''plate'' \<in> set (map fst (z_attrs root))"
    then show "open_ome_zarr sch eng p ''auto'' mode cn ax ''0.4'' h
                 = construct_node sch PlateK root True cn ax p' h"
      by (simp add: ex resolve_layout_def)
  next
    assume "''plate'' \<notin> set (map fst (z_attrs root)) \<and> ''multiscales'' \<in> set (map fst (z_attrs root))"
    then show "open_ome_zarr sch eng p ''auto'' mode cn ax ''0.4'' h
                 = construct_node sch PositionK root True cn ax p' h"
      by (simp add: ex resolve_layout_def)
  next
    assume "''plate'' \<notin> set (map fst (z_attrs root)) \<and> ''multiscales'' \<notin> set (map fst (z_attrs root))"
    then show "open_ome_zarr sch eng p ''auto'' mode cn ax ''0.4'' h = (Inl KeyError, p', h)"
      by (simp add: ex resolve_layout_def)
  next
    assume "''multiscales'' \<notin> set (map fst (z_attrs root))"
    then show "open_ome_zarr sch eng p ''fov'' mode cn ax ''0.4'' h = (Inl ValueError, p', h)"
      by (simp add: ex resolve_layout_def)
  next
    assume "''plate'' \<notin> set (map fst (z_attrs root))"
    then show "open_ome_zarr sch eng p ''hcs'' mode cn ax ''0.4'' h = (Inl ValueError, p', h)"
      by (simp add: ex resolve_layout_def)
  next
    assume "''multiscales'' \<in> set (map fst (z_attrs root))"
    then show "open_ome_zarr sch eng p ''fov'' mode cn ax ''0.4'' h
                 = construct_node sch PositionK root True cn ax p' h"
      by (simp add: ex resolve_layout_def)
  next
    assume "''plate'' \<in> set (map fst (z_attrs root))"
    then show "open_ome_zarr sch eng p ''hcs'' mode cn ax ''0.4'' h
                 = construct_node sch PlateK root True cn ax p' h"
      by (simp add: ex resolve_layout_def)
  }
qed

theorem open_ome_zarr_layout_resolution_witness:
  "open_group example_engine (Directory (Some example_position_root)) ''r''
       = (Some example_position_root, Directory (Some example_position_root))
   \<and> path_isdir (Directory (Some example_position_root))
   \<and> ''plate'' \<notin> set (map fst (z_attrs example_position_root))
   \<and> ''multiscales'' \<in> set (map fst (z_attrs example_position_root))
   \<and> open_ome_zarr example_schema example_engine (Directory (Some example_position_root))
         ''auto'' ''r'' None None ''0.4'' []
       = construct_node example_schema PositionK example_position_root True None None
           (Directory (Some example_position_root)) []
   \<and> open_ome_zarr example_schema example_engine (Directory (Some example_position_root))
         ''hcs'' ''r'' None None ''0.4'' []
       = (Inl ValueError, Directory (Some example_position_root), [])
   \<and> open_group example_engine (Directory (Some example_plate_root)) ''r+''
       = (Some example_plate_root, Directory (Some example_plate_root))
   \<and> ''plate'' \<in> set (map fst (z_attrs example_plate_root))
   \<and> open_ome_zarr example_schema example_engine (Directory (Some example_plate_root))
         ''auto'' ''r+'' None None ''0.4'' []
       = construct_node example_schema PlateK example_plate_root True None None
           (Directory (Some example_plate_root)) []
   \<and> open_group example_engine Absent ''w-'' = (Some (ZGroup [] []), Directory (Some (ZGroup [] [])))
   \<and> \<not> path_exists Absent
   \<and> open_ome_zarr example_schema example_engine Absent ''auto'' ''w-'' (Some 0) None ''0.4''
         example_heap
       = (Inl ValueError, Directory (Some (ZGroup [] [])), example_heap)"
proof -
  have pos: "open_group example_engine (Directory (Some example_position_root)) ''r''
       = (Some example_position_root, Directory (Some example_position_root))"
    by (simp add: example_engine_def ex_open_group_def)
  have plate: "open_group example_engine (Directory (Some example_plate_root)) ''r+''
       = (Some example_plate_root, Directory (Some example_plate_root))"
    by (simp add: example_engine_def ex_open_group_def)
  have new: "open_group example_engine Absent ''w-''
       = (Some (ZGroup [] []), Directory (Some (ZGroup [] [])))"
    by (simp add: example_engine_def ex_open_group_def)
  have keys_pos: "''plate'' \<notin> set (map fst (z_attrs example_position_root))"
    "''multiscales'' \<in> set (map fst (z_attrs example_position_root))"
    by (simp_all add: example_position_root_def ex_images_dict_def)
  have keys_plate: "''plate'' \<in> set (map fst (z_attrs example_plate_root))"
    by (simp add: example_plate_root_def)
  have absent: "\<not> path_exists Absent"
    by (simp add: path_exists_def)
  show ?thesis
    using open_ome_zarr_layout_resolution [OF pos, of example_schema None None "[]"]
      open_ome_zarr_layout_resolution [OF plate, of example_schema None None "[]"]
      open_ome_zarr_layout_resolution [OF new, of example_schema "Some 0" None example_heap]
      pos plate new keys_pos keys_plate absent
    by simp
qed

subsection \<open>Appending a channel\<close>

text \<open>
  C10.  \<open>append_channel\<close> on a position with a name that its channel list already has
  raises ValueError and leaves the node (its image arrays, its metadata and the stored
  document in the attributes of its group) and every list of the heap as they were.
\<close>

theorem append_channel_existing_name:
  assumes "n_kind self = PositionK" and "n_channel_names self = Some r"
    and "chan_name \<in> set (h ! r)"
  shows "append_channel sch eng chan_name resize_arrays self h = (Inl ValueError, self, h)"
  using assms by (simp add: append_channel_def)

theorem append_channel_existing_name_witness:
  "n_kind example_position = PositionK
   \<and> n_channel_names example_position = Some 0
   \<and> ''GFP'' \<in> set (example_heap ! 0)
   \<and> append_channel example_schema example_engine ''GFP'' True example_position example_heap
       = (Inl ValueError, example_position, example_heap)"
proof -
  have k: "n_kind example_position = PositionK" by (simp add: example_position_def)
  have r: "n_channel_names example_position = Some 0" by (simp add: example_position_def)
  have m: "''GFP'' \<in> set (example_heap ! 0)" by (simp add: example_heap_def)
  from append_channel_existing_name [OF k r m] k r m show ?thesis by simp
qed













text \<open>
  The case that the amended C3 leaves out.  When the channel axis index equals the rank
  of an array, the loop computes the left-padded shape and hands it to \<open>img.resize\<close>;
  on the engine that refuses a change of rank, as Zarr does, the call raises ValueError
  with the name already appended and the array as it was.
\<close>

lemma append_channel_rank_change_example:
  "image_shape flat_position ''0'' = Some [5]
   \<and> find_axis flat_position ''channel'' = Inr (Some 1)
   \<and> new_shape 1 [5] = Inr [1, 5]
   \<and> fst flat_appended = Inl ValueError
   \<and> image_shape (fst (snd flat_appended)) ''0'' = Some [5]
   \<and> snd (snd flat_appended) = [[''DAPI'', ''GFP'', ''RFP'', ''Cy5'']]"
  by code_simp




subsection \<open>Channel names of parent and child nodes\<close>

















subsection \<open>Well indices of a plate\<close>

text \<open>
  C4.  The wells (A,1), (A,2), (B,1) are created in this order on a new plate, with no
  index given.  \<open>create_well\<close> passes the index argument, \<open>None\<close>, where \<open>_auto_idx\<close>
  expects the name, so a known row or column is never found, and the first column is
  never entered into \<open>_cols\<close>: the stored document gives A/2 the row index 1 and the
  column index 0, and B/1 the row index 1 and the column index 1.  Reopened read-only
  with layout \<open>auto\<close>, the plate has this document and empty registries.  Created in
  the order (B,1), (A,1), (A,2), the wells get the row indices 0, 1, 2 and the column
  index 0 throughout.
\<close>

theorem create_well_auto_indices_example:
  "(case three_wells of
      Inl e \<Rightarrow> False
    | Inr (well, plate, h) \<Rightarrow>
        n_metadata plate = Some (PlateM
          \<lparr> pm_version = ''0.4'', pm_name = None, pm_acquisitions = [0],
            pm_rows = [''A'', ''B''], pm_columns = [''1'', ''2''],
            pm_wells = [(''A/1'', 0, 0), (''A/2'', 1, 0), (''B/1'', 1, 1)] \<rparr>)
        \<and> n_rows plate = [(''A'', 0), (''B'', 1)]
        \<and> n_cols plate = [(''2'', 0)])
   \<and> (case reopened of
        Inl e \<Rightarrow> False
      | Inr plate \<Rightarrow>
          n_metadata plate = Some (PlateM
            \<lparr> pm_version = ''0.4'', pm_name = None, pm_acquisitions = [0],
              pm_rows = [''A'', ''B''], pm_columns = [''1'', ''2''],
              pm_wells = [(''A/1'', 0, 0), (''A/2'', 1, 0), (''B/1'', 1, 1)] \<rparr>)
          \<and> n_rows plate = [] \<and> n_cols plate = [])
   \<and> (case three_wells_B_first of
        Inl e \<Rightarrow> False
      | Inr (well, plate, h) \<Rightarrow>
          n_metadata plate = Some (PlateM
            \<lparr> pm_version = ''0.4'', pm_name = None, pm_acquisitions = [0],
              pm_rows = [''B'', ''A''], pm_columns = [''1'', ''2''],
              pm_wells = [(''B/1'', 0, 0), (''A/1'', 1, 0), (''A/2'', 2, 0)] \<rparr>))"
  by code_simp


subsection \<open>Metadata that fails validation\<close>

text \<open>
  C8.  A store is opened read-only.  With a plate document that fails validation the
  open raises ValidationError; with a valid plate whose well A/1 has a well document
  that fails validation, the item access to that well raises ValidationError.  With a
  position document that fails validation the open returns the position without
  metadata, and its image array is accessible.
\<close>

theorem parse_meta_validation_error_example:
  "fst (open_ome_zarr example_schema example_engine (Directory (Some bad_plate_root))
          ''auto'' ''r'' None None ''0.4'' []) = Inl ValidationError
   \<and> bad_well_access = Inl ValidationError
   \<and> (case open_ome_zarr example_schema example_engine (Directory (Some bad_position_root))
              ''auto'' ''r'' None None ''0.4'' [] of
        (Inl e, p, h) \<Rightarrow> False
      | (Inr pos, p, h) \<Rightarrow>
          n_kind pos = PositionK \<and> n_metadata pos = None
          \<and> getitem example_schema pos [''0''] h = Inr (ItemArray [1, 1, 4, 5, 6], h))"
  by code_simp


end
